theory Spec2Isabelle
  imports Main "HOL-Library.Sublist"
begin

section \<open>The shadow checkpoint service\<close>

text \<open>
  A shallow embedding of \<^verbatim>\<open>ShadowCheckpointService\<close>
  (\<^verbatim>\<open>src/services/checkpoints/ShadowCheckpointService.ts\<close>).

  The service is a class with mutable fields: it becomes the record \<open>service\<close>, passed
  in and returned updated. What the class does to the outside (the module-level set of
  shown warnings, the dialogs, the telemetry sink, and every call of a mutating
  filesystem or git API) is collected in the record \<open>world\<close>. The collaborators the
  class only calls (\<^verbatim>\<open>simple-git\<close>, \<^verbatim>\<open>fs\<close>, \<^verbatim>\<open>path\<close>, \<^verbatim>\<open>os\<close>, ripgrep, i18n, the
  clock) are not part of the class: the outcome of each call is read from the record
  \<open>env\<close>, a function of the call's arguments where it has any. A JavaScript
  \<^verbatim>\<open>throw\<close> is the left summand of a sum type; \<^verbatim>\<open>undefined\<close> and \<^verbatim>\<open>null\<close> are \<open>None\<close>.
  The class extends Node's \<^verbatim>\<open>EventEmitter\<close>: the registered listeners are a field of
  the instance, and \<^verbatim>\<open>emit\<close> is the base class's, which throws when an \<^verbatim>\<open>error\<close> event
  has no listener. Strings are lists of bytes (UTF-8).
\<close>

subsection \<open>Values, errors and events\<close>

text \<open>
  A thrown JavaScript value: an \<^verbatim>\<open>Error\<close> instance with its message; any other value,
  kept as \<^verbatim>\<open>String(e)\<close>; or the \<^verbatim>\<open>ERR_UNHANDLED_ERROR\<close> that \<^verbatim>\<open>EventEmitter.emit\<close> throws
  for an \<^verbatim>\<open>error\<close> event nobody listens to, an \<^verbatim>\<open>Error\<close> instance too, with its message
  and, as its context, the error of the event's payload.
\<close>

datatype thrown = ErrorObj string | NonError string | ErrUnhandledError string thrown

text \<open>\<^verbatim>\<open>e instanceof Error ? e : new Error(String(e))\<close>\<close>

fun toError :: "thrown \<Rightarrow> thrown" where
  "toError (ErrorObj m) = ErrorObj m"
| "toError (NonError v) = ErrorObj v"
| "toError (ErrUnhandledError m context) = ErrUnhandledError m context"

text \<open>\<^verbatim>\<open>error instanceof Error ? error.message : String(error)\<close>\<close>

fun errorMessage :: "thrown \<Rightarrow> string" where
  "errorMessage (ErrorObj m) = m"
| "errorMessage (NonError v) = v"
| "errorMessage (ErrUnhandledError m context) = m"

text \<open>Truthiness of a value of type \<^verbatim>\<open>string | undefined\<close>: the empty string is falsy.\<close>

definition truthy :: "string option \<Rightarrow> bool" where
  "truthy v = (case v of None \<Rightarrow> False | Some s \<Rightarrow> s \<noteq> [])"

text \<open>The payloads of \<^verbatim>\<open>CheckpointEventMap\<close>, one constructor per event name.\<close>

datatype event =
    InitializeEvent string "string option" bool int
  | CheckpointEvent "string option" "string option" int bool
  | RestoreEvent string int
  | ErrorEvent thrown

text \<open>The event name \<^verbatim>\<open>this.emit\<close> is called with for each payload.\<close>

fun eventName :: "event \<Rightarrow> string" where
  "eventName (InitializeEvent ws base created duration) = ''initialize''"
| "eventName (CheckpointEvent fromHash toHash duration suppress) = ''checkpoint''"
| "eventName (RestoreEvent h duration) = ''restore''"
| "eventName (ErrorEvent err) = ''error''"

text \<open>
  The calls of \<^verbatim>\<open>this.log\<close>, one constructor per call site, carrying the values the
  message interpolates (the formatting of the message itself is left out).
\<close>

datatype log_entry =
    LogGitVersion string
  | LogRepoExists string
  | LogCreatingRepo string
  | LogInitialized "string option" int
  | LogStageAllFailed string
  | LogNestedFound nat string
  | LogNestedCheckFailed string
  | LogGetWorktreeFailed string
  | LogSaveStarting bool
  | LogSaved int string
  | LogNoChanges int
  | LogSaveFailed string
  | LogRestoreStarting
  | LogRestored string int
  | LogRestoreFailed string
  | LogDiffing string

text \<open>The calls of mutating filesystem and git APIs, in the order they are issued.\<close>

datatype action =
    FsMkdir string
  | FsWriteFile string string
  | GitInit
  | GitAddConfig string string
  | GitAdd string
  | GitCommit string bool
  | GitClean string "string list"
  | GitReset "string list"

record commitResult =
  commit :: string
  branch :: string

record fileResult =
  fr_type :: string
  fr_path :: string

record options =
  allowEmpty :: "bool option"
  suppressMessage :: "bool option"

subsection \<open>The instance, the world around it, and the collaborators\<close>

text \<open>
  The fields of the class. \<open>checkpoints\<close> is \<^verbatim>\<open>_checkpoints\<close>; its entries are
  \<^verbatim>\<open>string | undefined\<close> at run time, because \<^verbatim>\<open>saveCheckpoint\<close> pushes a value computed
  from \<^verbatim>\<open>this.baseHash!\<close>, and the \<^verbatim>\<open>!\<close> is erased by the compiler. \<open>git\<close> is the
  \<^verbatim>\<open>SimpleGit\<close> handle, named by the directory it was opened on. \<open>emitted\<close> and \<open>logged\<close>
  collect the calls of \<^verbatim>\<open>this.emit\<close> and \<^verbatim>\<open>this.log\<close>, \<open>emitted\<close> whether or not a
  listener is there to receive the event. \<open>className\<close> is \<^verbatim>\<open>this.constructor.name\<close>.
  \<open>listeners\<close> is the \<^verbatim>\<open>EventEmitter\<close>'s registry, in registration order: a listener is
  the caller's function, named by a number, under the event it was registered for, and
  registered by \<^verbatim>\<open>on\<close> or by \<^verbatim>\<open>once\<close>. A listener that is called returns normally; what
  it does is the caller's code.
\<close>

record listener =
  l_event :: string
  l_id :: nat
  l_once :: bool

record service =
  className :: string
  taskId :: string
  checkpointsDir :: string
  workspaceDir :: string
  checkpoints :: "string option list"
  baseHash :: "string option"
  dotGitDir :: string
  git :: "string option"
  shadowGitConfigWorktree :: "string option"
  emitted :: "event list"
  logged :: "log_entry list"
  listeners :: "listener list"

record world =
  warningsShown :: "string list"
  dialogs :: "(string \<times> string) list"
  telemetry :: "(string \<times> thrown) list"
  actions :: "action list"

text \<open>
  The collaborators, each under the name the class calls it by: \<^verbatim>\<open>os.homedir\<close>, the
  \<^verbatim>\<open>path\<close> module, the i18n function \<^verbatim>\<open>t\<close>, \<^verbatim>\<open>executeRipgrep\<close> (module
  \<^verbatim>\<open>services/search/file-search\<close>), \<^verbatim>\<open>fileExistsAtPath\<close> (module \<^verbatim>\<open>utils/fs\<close>),
  \<^verbatim>\<open>getExcludePatterns\<close> (module \<^verbatim>\<open>./excludes\<close>), \<^verbatim>\<open>fs/promises\<close>, and the methods of the
  \<^verbatim>\<open>SimpleGit\<close> handle. A call that can reject yields \<open>Inl\<close> of what it throws.
  \<^verbatim>\<open>git.commit\<close> takes the message and whether \<^verbatim>\<open>--allow-empty\<close> is passed;
  \<^verbatim>\<open>git.diffSummary\<close> yields the \<^verbatim>\<open>file\<close> fields of its entries. \<open>now_start\<close> and
  \<open>now_end\<close> are the two readings of \<^verbatim>\<open>Date.now()\<close> an operation makes. \<open>util_inspect\<close>
  is the \<^verbatim>\<open>inspect\<close> that \<^verbatim>\<open>EventEmitter.emit\<close> prints an unhandled payload with.
\<close>

record env =
  os_homedir :: string
  path_join :: "string list \<Rightarrow> string"
  path_dirname :: "string \<Rightarrow> string"
  path_relative :: "string \<Rightarrow> string \<Rightarrow> string"
  i18n_t :: "string \<Rightarrow> (string \<times> string) list \<Rightarrow> string"
  util_inspect :: "event \<Rightarrow> string"
  now_start :: int
  now_end :: int
  executeRipgrep :: "string list \<Rightarrow> string \<Rightarrow> thrown + fileResult list"
  fileExistsAtPath :: "string \<Rightarrow> bool"
  getExcludePatterns :: "string \<Rightarrow> thrown + string list"
  fs_mkdir :: "string \<Rightarrow> thrown + unit"
  fs_writeFile :: "string \<Rightarrow> string \<Rightarrow> thrown + unit"
  fs_readFile :: "string \<Rightarrow> thrown + string"
  git_version :: "thrown + string"
  git_init :: "thrown + unit"
  git_addConfig :: "string \<Rightarrow> string \<Rightarrow> thrown + unit"
  git_getConfig :: "string \<Rightarrow> thrown + string option"
  git_revparse :: "string list \<Rightarrow> thrown + string"
  git_add :: "string \<Rightarrow> thrown + unit"
  git_commit :: "string \<Rightarrow> bool \<Rightarrow> thrown + commitResult"
  git_clean :: "string \<Rightarrow> string list \<Rightarrow> thrown + unit"
  git_reset :: "string list \<Rightarrow> thrown + unit"
  git_raw :: "string list \<Rightarrow> thrown + string"
  git_diffSummary :: "string list \<Rightarrow> thrown + string list"
  git_show :: "string list \<Rightarrow> thrown + string"

text \<open>\<^verbatim>\<open>listenerCount(name)\<close>\<close>

definition listenerCount :: "service \<Rightarrow> string \<Rightarrow> nat" where
  "listenerCount s name = length (filter (\<lambda>l. l_event l = name) (listeners s))"


definition once :: "string \<Rightarrow> nat \<Rightarrow> service \<Rightarrow> service" where
  "once name lid s =
     s\<lparr>listeners := listeners s @ [\<lparr>l_event = name, l_id = lid, l_once = True\<rparr>]\<rparr>"

fun removeFirst :: "('a \<Rightarrow> bool) \<Rightarrow> 'a list \<Rightarrow> 'a list" where
  "removeFirst P [] = []"
| "removeFirst P (x # xs) = (if P x then xs else x # removeFirst P xs)"

definition off :: "string \<Rightarrow> nat \<Rightarrow> service \<Rightarrow> service" where
  "off name lid s =
     s\<lparr>listeners :=
         rev (removeFirst (\<lambda>l. l_event l = name \<and> l_id l = lid) (rev (listeners s)))\<rparr>"

text \<open>
  \<^verbatim>\<open>emit(event, data)\<close>, which is \<^verbatim>\<open>EventEmitter.emit\<close>. With no listener for the event: an
  \<^verbatim>\<open>error\<close> event makes it throw \<^verbatim>\<open>ERR_UNHANDLED_ERROR\<close> (the payload is an object, not
  an \<^verbatim>\<open>Error\<close>), any other event makes it return \<^verbatim>\<open>false\<close>. With listeners: they are
  called, those registered by \<^verbatim>\<open>once\<close> are dropped from the registry, and it returns
  \<^verbatim>\<open>true\<close>.
\<close>

definition emit :: "env \<Rightarrow> event \<Rightarrow> service \<Rightarrow> (thrown + bool) \<times> service" where
  "emit e ev s =
     (let name = eventName ev;
          s1 = s\<lparr>emitted := emitted s @ [ev]\<rparr>
      in if listenerCount s name = 0
         then (case ev of
                 ErrorEvent err \<Rightarrow>
                   (Inl (ErrUnhandledError (''Unhandled error. ('' @ util_inspect e ev @ '')'') err),
                    s1)
               | _ \<Rightarrow> (Inr False, s1))
         else (Inr True,
               s1\<lparr>listeners := filter (\<lambda>l. \<not> (l_event l = name \<and> l_once l)) (listeners s1)\<rparr>))"

definition log :: "log_entry \<Rightarrow> service \<Rightarrow> service" where
  "log l s = s\<lparr>logged := logged s @ [l]\<rparr>"

definition perform :: "action \<Rightarrow> world \<Rightarrow> world" where
  "perform a w = w\<lparr>actions := actions w @ [a]\<rparr>"

text \<open>\<^verbatim>\<open>reportError(callsite, error)\<close>: one telemetry event.\<close>

definition reportError :: "string \<Rightarrow> thrown \<Rightarrow> world \<Rightarrow> world" where
  "reportError callsite err w = w\<lparr>telemetry := telemetry w @ [(callsite, err)]\<rparr>"

text \<open>
  \<^verbatim>\<open>showWarning(message)\<close>: at most five distinct messages are ever shown.
  \<open>warningsShown\<close> is the module-level \<^verbatim>\<open>Set\<close>, in insertion order.
\<close>

definition showWarning :: "env \<Rightarrow> string \<Rightarrow> world \<Rightarrow> world" where
  "showWarning e message w =
     (if length (remdups (warningsShown w)) < 5 \<and> message \<notin> set (warningsShown w)
      then w\<lparr>dialogs := dialogs w @ [(message, i18n_t e ''kilocode:checkpoints.dismissWarning'' [])],
             warningsShown := warningsShown w @ [message]\<rparr>
      else w)"

text \<open>\<^verbatim>\<open>get isInitialized() { return !!this.git }\<close>\<close>

definition isInitialized :: "service \<Rightarrow> bool" where
  "isInitialized s = (git s \<noteq> None)"

text \<open>\<^verbatim>\<open>getCheckpoints()\<close> returns a copy of the sequence.\<close>

definition getCheckpoints :: "service \<Rightarrow> string option list" where
  "getCheckpoints s = checkpoints s"

subsection \<open>Array helpers\<close>

text \<open>\<^verbatim>\<open>Array.prototype.indexOf\<close>: the first index holding the value, or \<open>-1\<close>.\<close>

fun indexOfFrom :: "'a list \<Rightarrow> 'a \<Rightarrow> int \<Rightarrow> int" where
  "indexOfFrom [] x i = - 1"
| "indexOfFrom (y # ys) x i = (if y = x then i else indexOfFrom ys x (i + 1))"

definition indexOf :: "'a list \<Rightarrow> 'a \<Rightarrow> int" where
  "indexOf xs x = indexOfFrom xs x 0"

text \<open>\<^verbatim>\<open>Array.prototype.slice(start, end)\<close>, negative indices counting from the end.\<close>

definition slice :: "'a list \<Rightarrow> int \<Rightarrow> int \<Rightarrow> 'a list" where
  "slice xs start end =
     (let n = int (length xs);
          from = (if start < 0 then max (n + start) 0 else min start n);
          to = (if end < 0 then max (n + end) 0 else min end n)
      in take (nat (to - from)) (drop (nat from) xs))"

text \<open>\<^verbatim>\<open>xs[xs.length - 1]\<close>: \<^verbatim>\<open>undefined\<close> on the empty array.\<close>

definition lastElement :: "'a option list \<Rightarrow> 'a option" where
  "lastElement xs = (if xs = [] then None else last xs)"

subsection \<open>stageAll\<close>

text \<open>\<^verbatim>\<open>git.add(".")\<close>; a failure is logged and reported, never thrown.\<close>

definition stageAll :: "env \<Rightarrow> service \<Rightarrow> world \<Rightarrow> service \<times> world" where
  "stageAll e s w =
     (let w1 = perform (GitAdd ''.'') w
      in case git_add e ''.'' of
           Inr _ \<Rightarrow> (s, w1)
         | Inl err \<Rightarrow>
             (log (LogStageAllFailed (errorMessage err)) s,
              reportError (className s @ ''#stageAll'') err w1))"

subsection \<open>saveCheckpoint\<close>

text \<open>\<^verbatim>\<open>options?.allowEmpty\<close> and \<^verbatim>\<open>options?.suppressMessage\<close>\<close>

definition allowEmptyOf :: "options option \<Rightarrow> bool option" where
  "allowEmptyOf opts = (case opts of None \<Rightarrow> None | Some opt \<Rightarrow> allowEmpty opt)"

definition suppressMessageOf :: "options option \<Rightarrow> bool option" where
  "suppressMessageOf opts = (case opts of None \<Rightarrow> None | Some opt \<Rightarrow> suppressMessage opt)"

text \<open>The \<^verbatim>\<open>catch\<close> block of \<^verbatim>\<open>saveCheckpoint\<close>.\<close>

definition saveCheckpoint_catch ::
  "env \<Rightarrow> thrown \<Rightarrow> service \<Rightarrow> world
     \<Rightarrow> (thrown + commitResult option) \<times> service \<times> world" where
  "saveCheckpoint_catch e caught s w =
     (let error = toError caught;
          s1 = log (LogSaveFailed (errorMessage error)) s
      in case emit e (ErrorEvent error) s1 of
           (Inl unhandled, s2) \<Rightarrow> (Inl unhandled, s2, w)
         | (Inr _, s2) \<Rightarrow> (Inl error, s2, w))"

definition saveCheckpoint ::
  "env \<Rightarrow> string \<Rightarrow> options option \<Rightarrow> service \<Rightarrow> world
     \<Rightarrow> (thrown + commitResult option) \<times> service \<times> world" where
  "saveCheckpoint e message opts s w =
     (let optAllowEmpty = allowEmptyOf opts;
          optSuppress = suppressMessageOf opts;
          s1 = log (LogSaveStarting (case optAllowEmpty of None \<Rightarrow> False | Some b \<Rightarrow> b)) s
      in case git s1 of
           None \<Rightarrow> saveCheckpoint_catch e (ErrorObj ''Shadow git repo not initialized'') s1 w
         | Some g \<Rightarrow>
            (let startTime = now_start e;
                 (s2, w2) = stageAll e s1 w;
                 commitArgs = (optAllowEmpty = Some True);
                 w3 = perform (GitCommit message commitArgs) w2
             in case git_commit e message commitArgs of
                  Inl err \<Rightarrow> saveCheckpoint_catch e err s2 w3
                | Inr result \<Rightarrow>
                   (let fromHash = (case lastElement (checkpoints s2) of
                                      None \<Rightarrow> baseHash s2
                                    | Some h \<Rightarrow> Some h);
                        toHash = (if commit result \<noteq> [] then Some (commit result) else fromHash);
                        s3 = s2\<lparr>checkpoints := checkpoints s2 @ [toHash]\<rparr>;
                        duration = now_end e - startTime
                    in if commit result \<noteq> []
                       then (case emit e (CheckpointEvent fromHash toHash duration
                                            (case optSuppress of None \<Rightarrow> False | Some b \<Rightarrow> b)) s3 of
                               (Inl err, s4) \<Rightarrow> saveCheckpoint_catch e err s4 w3
                             | (Inr _, s4) \<Rightarrow>
                                 (Inr (Some result),
                                  log (LogSaved duration (commit result)) s4, w3))
                       else (Inr None, log (LogNoChanges duration) s3, w3))))"

subsection \<open>restoreCheckpoint\<close>

text \<open>The \<^verbatim>\<open>catch\<close> block of \<^verbatim>\<open>restoreCheckpoint\<close>.\<close>

definition restoreCheckpoint_catch ::
  "env \<Rightarrow> thrown \<Rightarrow> service \<Rightarrow> world \<Rightarrow> (thrown + unit) \<times> service \<times> world" where
  "restoreCheckpoint_catch e caught s w =
     (let error = toError caught;
          s1 = log (LogRestoreFailed (errorMessage error)) s
      in case emit e (ErrorEvent error) s1 of
           (Inl unhandled, s2) \<Rightarrow> (Inl unhandled, s2, w)
         | (Inr _, s2) \<Rightarrow> (Inl error, s2, w))"

definition restoreCheckpoint ::
  "env \<Rightarrow> string \<Rightarrow> service \<Rightarrow> world \<Rightarrow> (thrown + unit) \<times> service \<times> world" where
  "restoreCheckpoint e commitHash s w =
     (let s1 = log LogRestoreStarting s
      in case git s1 of
           None \<Rightarrow> restoreCheckpoint_catch e (ErrorObj ''Shadow git repo not initialized'') s1 w
         | Some g \<Rightarrow>
            (let start = now_start e;
                 w1 = perform (GitClean ''f'' [''-d'', ''-f'']) w
             in case git_clean e ''f'' [''-d'', ''-f''] of
                  Inl err \<Rightarrow> restoreCheckpoint_catch e err s1 w1
                | Inr _ \<Rightarrow>
                   (let w2 = perform (GitReset [''--hard'', commitHash]) w1
                    in case git_reset e [''--hard'', commitHash] of
                         Inl err \<Rightarrow> restoreCheckpoint_catch e err s1 w2
                       | Inr _ \<Rightarrow>
                          (let checkpointIndex = indexOf (checkpoints s1) (Some commitHash);
                               s2 = (if checkpointIndex \<noteq> - 1
                                     then s1\<lparr>checkpoints :=
                                               slice (checkpoints s1) 0 (checkpointIndex + 1)\<rparr>
                                     else s1);
                               duration = now_end e - start
                           in case emit e (RestoreEvent commitHash duration) s2 of
                                (Inl err, s3) \<Rightarrow> restoreCheckpoint_catch e err s3 w2
                              | (Inr _, s3) \<Rightarrow>
                                  (Inr (), log (LogRestored commitHash duration) s3, w2)))))"

subsection \<open>String helpers\<close>

text \<open>\<^verbatim>\<open>String.prototype.includes\<close>: the argument occurs as a contiguous substring.\<close>

fun stringIncludes :: "string \<Rightarrow> string \<Rightarrow> bool" where
  "stringIncludes [] sub = (sub = [])"
| "stringIncludes (c # cs) sub = (prefix sub (c # cs) \<or> stringIncludes cs sub)"

text \<open>\<^verbatim>\<open>filePath.replace(/\\/g, "/")\<close>: every backslash becomes a slash.\<close>

definition normalizeSlashes :: "string \<Rightarrow> string" where
  "normalizeSlashes filePath = map (\<lambda>c. if c = CHR 0x5C then CHR ''/'' else c) filePath"

text \<open>\<^verbatim>\<open>Array.prototype.join(sep)\<close>\<close>

fun arrayJoin :: "string \<Rightarrow> string list \<Rightarrow> string" where
  "arrayJoin sep [] = []"
| "arrayJoin sep [x] = x"
| "arrayJoin sep (x # y # ys) = x @ sep @ arrayJoin sep (y # ys)"

text \<open>
  \<^verbatim>\<open>String.prototype.trim\<close> strips the white space and line terminators of ECMAScript
  from both ends. In UTF-8 they are one, two or three bytes long: the six ASCII ones;
  U+00A0; and U+1680, U+2000 to U+200A, U+2028, U+2029, U+202F, U+205F, U+3000 and
  U+FEFF.
\<close>

definition isWhiteSpace1 :: "char \<Rightarrow> bool" where
  "isWhiteSpace1 a = (a \<in> set [CHR 0x09, CHR 0x0A, CHR 0x0B, CHR 0x0C, CHR 0x0D, CHR 0x20])"

definition isWhiteSpace2 :: "char \<Rightarrow> char \<Rightarrow> bool" where
  "isWhiteSpace2 a b = (a = CHR 0xC2 \<and> b = CHR 0xA0)"

definition isWhiteSpace3 :: "char \<Rightarrow> char \<Rightarrow> char \<Rightarrow> bool" where
  "isWhiteSpace3 a b c =
     ((a = CHR 0xE1 \<and> b = CHR 0x9A \<and> c = CHR 0x80) \<or>
      (a = CHR 0xE2 \<and> b = CHR 0x80 \<and>
         c \<in> set [CHR 0x80, CHR 0x81, CHR 0x82, CHR 0x83, CHR 0x84, CHR 0x85, CHR 0x86,
                  CHR 0x87, CHR 0x88, CHR 0x89, CHR 0x8A, CHR 0xA8, CHR 0xA9, CHR 0xAF]) \<or>
      (a = CHR 0xE2 \<and> b = CHR 0x81 \<and> c = CHR 0x9F) \<or>
      (a = CHR 0xE3 \<and> b = CHR 0x80 \<and> c = CHR 0x80) \<or>
      (a = CHR 0xEF \<and> b = CHR 0xBB \<and> c = CHR 0xBF))"

fun trimStart :: "string \<Rightarrow> string" where
  "trimStart (a # b # c # rest) =
     (if isWhiteSpace1 a then trimStart (b # c # rest)
      else if isWhiteSpace2 a b then trimStart (c # rest)
      else if isWhiteSpace3 a b c then trimStart rest
      else a # b # c # rest)"
| "trimStart [a, b] =
     (if isWhiteSpace1 a then trimStart [b]
      else if isWhiteSpace2 a b then []
      else [a, b])"
| "trimStart [a] = (if isWhiteSpace1 a then [] else [a])"
| "trimStart [] = []"

text \<open>The same from the end, on the reversed string: the bytes of a character come last first.\<close>

fun trimStartReversed :: "string \<Rightarrow> string" where
  "trimStartReversed (c # b # a # rest) =
     (if isWhiteSpace1 c then trimStartReversed (b # a # rest)
      else if isWhiteSpace2 b c then trimStartReversed (a # rest)
      else if isWhiteSpace3 a b c then trimStartReversed rest
      else c # b # a # rest)"
| "trimStartReversed [c, b] =
     (if isWhiteSpace1 c then trimStartReversed [b]
      else if isWhiteSpace2 b c then []
      else [c, b])"
| "trimStartReversed [c] = (if isWhiteSpace1 c then [] else [c])"
| "trimStartReversed [] = []"

definition trim :: "string \<Rightarrow> string" where
  "trim str = rev (trimStartReversed (rev (trimStart str)))"

subsection \<open>The constructor\<close>

text \<open>
  The constructor takes the task id, the two directories and the log sink (the sink is
  the field \<open>logged\<close>); the class name is that of the concrete subclass. It calls no
  filesystem or git API.
\<close>

definition constructor ::
  "env \<Rightarrow> string \<Rightarrow> string \<Rightarrow> string \<Rightarrow> string \<Rightarrow> world \<Rightarrow> (thrown + service) \<times> world" where
  "constructor e cls tid cpDir wsDir w =
     (let homedir = os_homedir e;
          desktopPath = path_join e [homedir, ''Desktop''];
          documentsPath = path_join e [homedir, ''Documents''];
          downloadsPath = path_join e [homedir, ''Downloads''];
          protectedPaths = [homedir, desktopPath, documentsPath, downloadsPath]
      in if wsDir \<in> set protectedPaths
         then (Inl (ErrorObj (''Cannot use checkpoints in '' @ wsDir)),
               showWarning e (i18n_t e ''kilocode:checkpoints.protectedPaths''
                                [(''workspaceDir'', wsDir)]) w)
         else (Inr \<lparr>className = cls, taskId = tid, checkpointsDir = cpDir,
                    workspaceDir = wsDir, checkpoints = [], baseHash = None,
                    dotGitDir = path_join e [cpDir, ''.git''], git = None,
                    shadowGitConfigWorktree = None, emitted = [], logged = [],
                    listeners = []\<rparr>, w))"

subsection \<open>getNestedGitRepository\<close>

text \<open>The predicate of the \<^verbatim>\<open>filter\<close>: a \<^verbatim>\<open>.git/HEAD\<close> file that is not the root's own.\<close>

definition isNestedGitHead :: "fileResult \<Rightarrow> bool" where
  "isNestedGitHead r =
     (if fr_type r \<noteq> ''file'' then False
      else (let normalizedPath = normalizeSlashes (fr_path r)
            in stringIncludes normalizedPath ''.git/HEAD'' \<and>
               \<not> prefix ''.git/'' normalizedPath \<and>
               normalizedPath \<noteq> ''.git/HEAD''))"

definition getNestedGitRepository ::
  "env \<Rightarrow> service \<Rightarrow> world \<Rightarrow> string option \<times> service \<times> world" where
  "getNestedGitRepository e s w =
     (let args = [''--files'', ''--hidden'', ''--follow'', ''-g'', ''**/.git/HEAD'', workspaceDir s]
      in case executeRipgrep e args (workspaceDir s) of
           Inl err \<Rightarrow>
             (None,
              log (LogNestedCheckFailed (errorMessage err)) s,
              reportError (className s @ ''#hasNestedGitRepositories'') err w)
         | Inr gitPaths \<Rightarrow>
             (let nestedGitPaths = filter isNestedGitHead gitPaths
              in case nestedGitPaths of
                   [] \<Rightarrow> (None, s, w)
                 | first # _ \<Rightarrow>
                     (let headPath = fr_path first;
                          gitDir = path_dirname e headPath;
                          repoDir = path_dirname e gitDir;
                          absolutePath = path_join e [workspaceDir s, repoDir]
                      in (Some absolutePath,
                          log (LogNestedFound (length nestedGitPaths) repoDir) s, w))))"

subsection \<open>getShadowGitConfigWorktree and writeExcludeFile\<close>

text \<open>The worktree is read once and cached; a failing lookup is logged and reported.\<close>

definition getShadowGitConfigWorktree ::
  "env \<Rightarrow> service \<Rightarrow> world \<Rightarrow> string option \<times> service \<times> world" where
  "getShadowGitConfigWorktree e s w =
     (if \<not> truthy (shadowGitConfigWorktree s)
      then (case git_getConfig e ''core.worktree'' of
              Inr v \<Rightarrow>
                (let v' = (if truthy v then v else None)
                 in (v', s\<lparr>shadowGitConfigWorktree := v'\<rparr>, w))
            | Inl err \<Rightarrow>
                (shadowGitConfigWorktree s,
                 log (LogGetWorktreeFailed (errorMessage err)) s,
                 reportError (className s @ ''#getShadowGitConfigWorktree'') err w))
      else (shadowGitConfigWorktree s, s, w))"

definition writeExcludeFile :: "env \<Rightarrow> service \<Rightarrow> world \<Rightarrow> (thrown + unit) \<times> world" where
  "writeExcludeFile e s w =
     (let infoDir = path_join e [dotGitDir s, ''info''];
          w1 = perform (FsMkdir infoDir) w
      in case fs_mkdir e infoDir of
           Inl err \<Rightarrow> (Inl err, w1)
         | Inr _ \<Rightarrow>
            (case getExcludePatterns e (workspaceDir s) of
               Inl err \<Rightarrow> (Inl err, w1)
             | Inr patterns \<Rightarrow>
                (let file = path_join e [dotGitDir s, ''info'', ''exclude''];
                     content = arrayJoin [CHR 0x0A] patterns
                 in (fs_writeFile e file content, perform (FsWriteFile file content) w1))))"

subsection \<open>initShadowGit\<close>

text \<open>The consecutive \<^verbatim>\<open>git.addConfig\<close> calls: the first that throws ends the run.\<close>

fun addConfigs :: "env \<Rightarrow> (string \<times> string) list \<Rightarrow> world \<Rightarrow> (thrown + unit) \<times> world" where
  "addConfigs e [] w = (Inr (), w)"
| "addConfigs e ((k, v) # kvs) w =
     (case git_addConfig e k v of
        Inl err \<Rightarrow> (Inl err, perform (GitAddConfig k v) w)
      | Inr _ \<Rightarrow> addConfigs e kvs (perform (GitAddConfig k v) w))"

text \<open>The branch for repository metadata that already exists: validate and reopen.\<close>

definition reopenShadowGit :: "env \<Rightarrow> service \<Rightarrow> world \<Rightarrow> (thrown + bool) \<times> service \<times> world" where
  "reopenShadowGit e s w =
     (let s1 = log (LogRepoExists (dotGitDir s)) s;
          (worktree, s2, w2) = getShadowGitConfigWorktree e s1 w
      in if worktree \<noteq> Some (workspaceDir s2)
         then (Inl (ErrorObj (''Checkpoints can only be used in the original workspace: '' @
                              (case worktree of None \<Rightarrow> ''undefined'' | Some d \<Rightarrow> d) @
                              '' !== '' @ workspaceDir s2)), s2, w2)
         else (case writeExcludeFile e s2 w2 of
                 (Inl err, w3) \<Rightarrow> (Inl err, s2, w3)
               | (Inr _, w3) \<Rightarrow>
                  (case git_revparse e [''HEAD''] of
                     Inl err \<Rightarrow> (Inl err, s2, w3)
                   | Inr h \<Rightarrow> (Inr False, s2\<lparr>baseHash := Some h\<rparr>, w3))))"

text \<open>The branch for a first creation: new repository, configuration, base commit.\<close>

definition createShadowGit :: "env \<Rightarrow> service \<Rightarrow> world \<Rightarrow> (thrown + bool) \<times> service \<times> world" where
  "createShadowGit e s w =
     (let s1 = log (LogCreatingRepo (checkpointsDir s)) s;
          w1 = perform GitInit w
      in case git_init e of
           Inl err \<Rightarrow> (Inl err, s1, w1)
         | Inr _ \<Rightarrow>
            (case addConfigs e [(''core.worktree'', workspaceDir s1),
                                (''commit.gpgSign'', ''false''),
                                (''user.name'', ''Kilo Code''),
                                (''user.email'', ''noreply@example.com'')] w1 of
               (Inl err, w2) \<Rightarrow> (Inl err, s1, w2)
             | (Inr _, w2) \<Rightarrow>
                (case writeExcludeFile e s1 w2 of
                   (Inl err, w3) \<Rightarrow> (Inl err, s1, w3)
                 | (Inr _, w3) \<Rightarrow>
                    (let (s4, w4) = stageAll e s1 w3;
                         w5 = perform (GitCommit ''initial commit'' True) w4
                     in case git_commit e ''initial commit'' True of
                          Inl err \<Rightarrow> (Inl err, s4, w5)
                        | Inr r \<Rightarrow> (Inr True, s4\<lparr>baseHash := Some (commit r)\<rparr>, w5)))))"

text \<open>
  \<^verbatim>\<open>initShadowGit\<close> from \<^verbatim>\<open>fs.mkdir\<close> on: what runs once the nested-repository check
  has let the workspace through. \<open>onInit\<close> is the optional callback, given by its outcome.
\<close>

definition openShadowGit ::
  "env \<Rightarrow> (thrown + unit) option \<Rightarrow> service \<Rightarrow> world
     \<Rightarrow> (thrown + bool \<times> int) \<times> service \<times> world" where
  "openShadowGit e onInit s w =
     (let w1 = perform (FsMkdir (checkpointsDir s)) w
      in case fs_mkdir e (checkpointsDir s) of
           Inl err \<Rightarrow> (Inl err, s, w1)
         | Inr _ \<Rightarrow>
            (case git_version e of
               Inl err \<Rightarrow> (Inl err, s, w1)
             | Inr gitVersion \<Rightarrow>
                (let s1 = log (LogGitVersion gitVersion) s;
                     startTime = now_start e
                 in case (if fileExistsAtPath e (dotGitDir s1)
                          then reopenShadowGit e s1 w1 else createShadowGit e s1 w1) of
                      (Inl err, s2, w2) \<Rightarrow> (Inl err, s2, w2)
                    | (Inr created, s2, w2) \<Rightarrow>
                       (let duration = now_end e - startTime;
                            s3 = log (LogInitialized (baseHash s2) duration) s2;
                            s4 = s3\<lparr>git := Some (checkpointsDir s3)\<rparr>
                        in case onInit of
                             Some (Inl err) \<Rightarrow> (Inl err, s4, w2)
                           | _ \<Rightarrow>
                              (case emit e (InitializeEvent (workspaceDir s4) (baseHash s4)
                                              created duration) s4 of
                                 (Inl err, s5) \<Rightarrow> (Inl err, s5, w2)
                               | (Inr _, s5) \<Rightarrow> (Inr (created, duration), s5, w2))))))"

definition initShadowGit ::
  "env \<Rightarrow> (thrown + unit) option \<Rightarrow> service \<Rightarrow> world
     \<Rightarrow> (thrown + bool \<times> int) \<times> service \<times> world" where
  "initShadowGit e onInit s w =
     (if git s \<noteq> None
      then (Inl (ErrorObj ''Shadow git repo already initialized''), s, w)
      else (let (nestedGitPath, s1, w1) = getNestedGitRepository e s w
            in case (if truthy nestedGitPath then nestedGitPath else None) of
                 Some nested \<Rightarrow>
                   (let relativePath = path_relative e (workspaceDir s1) nested;
                        w2 = showWarning e (i18n_t e ''kilocode:checkpoints.nestedGitRepos''
                                              [(''path'', relativePath)]) w1
                    in (Inl (ErrorObj
                          (''Checkpoints are disabled because a nested git repository was detected at: ''
                           @ relativePath @ ''. '' @
                           ''Please remove or relocate nested git repositories to use the checkpoints feature.'')),
                        s1, w2))
               | None \<Rightarrow> openShadowGit e onInit s1 w1))"

subsection \<open>getDiff\<close>

record checkpointDiff =
  relative :: string
  absolute :: string
  before :: string
  after :: string

text \<open>
  The body of the \<^verbatim>\<open>for\<close> loop of \<^verbatim>\<open>getDiff\<close>: the record of one changed file.
  \<open>to\<close> is \<open>None\<close> when the caller's \<^verbatim>\<open>to\<close> is falsy. Each read has its own
  \<^verbatim>\<open>.catch\<close>, which reports the failure and yields the empty string.
\<close>

definition diffFile ::
  "env \<Rightarrow> string \<Rightarrow> string \<Rightarrow> string option \<Rightarrow> string \<Rightarrow> string \<Rightarrow> world
     \<Rightarrow> checkpointDiff \<times> world" where
  "diffFile e cls from to cwdPath relPath w =
     (let absPath = path_join e [cwdPath, relPath];
          (before', w1) =
             (case git_show e [from @ '':'' @ relPath] of
                Inr content \<Rightarrow> (content, w)
              | Inl err \<Rightarrow> ([], reportError (''['' @ cls @ ''#getDiff:git.show:before'') err w));
          (after', w2) =
             (case to of
                Some t \<Rightarrow>
                  (case git_show e [t @ '':'' @ relPath] of
                     Inr content \<Rightarrow> (content, w1)
                   | Inl err \<Rightarrow>
                       ([], reportError (''['' @ cls @ ''#getDiff:git.show:after'') err w1))
              | None \<Rightarrow>
                  (case fs_readFile e absPath of
                     Inr content \<Rightarrow> (content, w1)
                   | Inl err \<Rightarrow>
                       ([], reportError (''['' @ cls @ ''#getDiff:readFile'') err w1)))
      in (\<lparr>relative = relPath, absolute = absPath, before = before', after = after'\<rparr>, w2))"

text \<open>The loop: one record per changed file, pushed onto \<open>result\<close> in order.\<close>

fun diffFiles ::
  "env \<Rightarrow> string \<Rightarrow> string \<Rightarrow> string option \<Rightarrow> string \<Rightarrow> string list
     \<Rightarrow> checkpointDiff list \<Rightarrow> world \<Rightarrow> checkpointDiff list \<times> world" where
  "diffFiles e cls from to cwdPath [] result w = (result, w)"
| "diffFiles e cls from to cwdPath (relPath # files) result w =
     (let (d, w') = diffFile e cls from to cwdPath relPath w
      in diffFiles e cls from to cwdPath files (result @ [d]) w')"

text \<open>
  \<^verbatim>\<open>if (!from) from = (await this.git.raw(["rev-list", "--max-parents=0", "HEAD"])).trim()\<close>
\<close>

definition resolveFrom :: "env \<Rightarrow> string option \<Rightarrow> thrown + string" where
  "resolveFrom e from =
     (case (if truthy from then from else None) of
        Some f \<Rightarrow> Inr f
      | None \<Rightarrow>
         (case git_raw e [''rev-list'', ''--max-parents=0'', ''HEAD''] of
            Inl err \<Rightarrow> Inl err
          | Inr out \<Rightarrow> Inr (trim out)))"

text \<open>
  \<^verbatim>\<open>to ? await this.git.diffSummary([`${from}..${to}`]) : await this.git.diffSummary([from])\<close>,
  read for the \<^verbatim>\<open>file\<close> field of each entry.
\<close>

definition changedFiles :: "env \<Rightarrow> string \<Rightarrow> string option \<Rightarrow> thrown + string list" where
  "changedFiles e from to =
     (case (if truthy to then to else None) of
        Some t \<Rightarrow> git_diffSummary e [from @ ''..'' @ t]
      | None \<Rightarrow> git_diffSummary e [from])"

definition getDiff ::
  "env \<Rightarrow> string option \<Rightarrow> string option \<Rightarrow> service \<Rightarrow> world
     \<Rightarrow> (thrown + checkpointDiff list) \<times> service \<times> world" where
  "getDiff e from to s w =
     (case git s of
        None \<Rightarrow> (Inl (ErrorObj ''Shadow git repo not initialized''), s, w)
      | Some g \<Rightarrow>
         (case resolveFrom e from of
            Inl err \<Rightarrow> (Inl err, s, w)
          | Inr from' \<Rightarrow>
             (let (s1, w1) = stageAll e s w;
                  to' = (if truthy to then to else None);
                  s2 = log (LogDiffing (case to' of
                                          Some t \<Rightarrow> from' @ ''..'' @ t
                                        | None \<Rightarrow> from' @ ''..HEAD'')) s1
              in case changedFiles e from' to of
                   Inl err \<Rightarrow> (Inl err, s2, w1)
                 | Inr files \<Rightarrow>
                    (let (worktree, s3, w3) = getShadowGitConfigWorktree e s2 w1;
                         cwdPath = (case (if truthy worktree then worktree else None) of
                                      Some d \<Rightarrow> d
                                    | None \<Rightarrow> workspaceDir s3);
                         (result, w4) = diffFiles e (className s3) from' to' cwdPath files [] w3
                     in (Inr result, s3, w4)))))"

subsection \<open>Reading an outcome\<close>

abbreviation resultOf :: "'a \<times> service \<times> world \<Rightarrow> 'a" where
  "resultOf out \<equiv> fst out"

abbreviation serviceAfter :: "'a \<times> service \<times> world \<Rightarrow> service" where
  "serviceAfter out \<equiv> fst (snd out)"

abbreviation worldAfter :: "'a \<times> service \<times> world \<Rightarrow> world" where
  "worldAfter out \<equiv> snd (snd out)"

text \<open>
  What holds of the hashes of an instance once \<^verbatim>\<open>initShadowGit\<close> has run: the base hash
  is set and no entry of the sequence is \<^verbatim>\<open>undefined\<close>.
\<close>

definition hashesDefined :: "service \<Rightarrow> bool" where
  "hashesDefined s = (baseHash s \<noteq> None \<and> None \<notin> set (checkpoints s))"

text \<open>
  An instance without its log and a world without its telemetry: what is left is what
  callers and the repository can see of a run.
\<close>

definition withoutLog :: "service \<Rightarrow> service" where
  "withoutLog s = s\<lparr>logged := []\<rparr>"

definition withoutTelemetry :: "world \<Rightarrow> world" where
  "withoutTelemetry w = w\<lparr>telemetry := []\<rparr>"

definition observable :: "'a \<times> service \<times> world \<Rightarrow> 'a \<times> service \<times> world" where
  "observable out = (fst out, withoutLog (fst (snd out)), withoutTelemetry (snd (snd out)))"

text \<open>What a read with \<^verbatim>\<open>.catch(() => "")\<close> yields.\<close>

definition contentOrEmpty :: "thrown + string \<Rightarrow> string" where
  "contentOrEmpty r = (case r of Inl err \<Rightarrow> [] | Inr content \<Rightarrow> content)"

subsection \<open>Example collaborators and instances\<close>

text \<open>
  A stand-in for the \<^verbatim>\<open>path\<close> module on slash-separated paths that have no \<^verbatim>\<open>.\<close> or
  \<^verbatim>\<open>..\<close> segments and no doubled or trailing slashes, which is all the examples use.
\<close>

definition exampleDirname :: "string \<Rightarrow> string" where
  "exampleDirname p = rev (drop 1 (dropWhile (\<lambda>c. c \<noteq> CHR ''/'') (rev p)))"

definition exampleRelative :: "string \<Rightarrow> string \<Rightarrow> string" where
  "exampleRelative base p = drop (Suc (length base)) p"

text \<open>
  Collaborators that never fail, over a workspace that has no shadow repository yet and
  one changed file \<^verbatim>\<open>a.txt\<close>: every commit yields the hash \<^verbatim>\<open>c4\<close>.
\<close>

definition exampleEnv :: env where
  "exampleEnv =
     \<lparr>os_homedir = ''/home/u'',
      path_join = arrayJoin ''/'',
      path_dirname = exampleDirname,
      path_relative = exampleRelative,
      i18n_t = (\<lambda>key args. key),
      util_inspect = (\<lambda>ev. ''{ type: error }''),
      now_start = 100,
      now_end = 130,
      executeRipgrep = (\<lambda>args ws. Inr []),
      fileExistsAtPath = (\<lambda>p. False),
      getExcludePatterns = (\<lambda>ws. Inr [''node_modules/'', ''.DS_Store'']),
      fs_mkdir = (\<lambda>p. Inr ()),
      fs_writeFile = (\<lambda>p c. Inr ()),
      fs_readFile = (\<lambda>p. Inr ''v2''),
      git_version = Inr ''2.43.0'',
      git_init = Inr (),
      git_addConfig = (\<lambda>k v. Inr ()),
      git_getConfig = (\<lambda>k. Inr (Some ''/work/proj'')),
      git_revparse = (\<lambda>args. Inr ''b0''),
      git_add = (\<lambda>p. Inr ()),
      git_commit = (\<lambda>m allow. Inr \<lparr>commit = ''c4'', branch = ''master''\<rparr>),
      git_clean = (\<lambda>m args. Inr ()),
      git_reset = (\<lambda>args. Inr ()),
      git_raw = (\<lambda>args. Inr (''b0'' @ [CHR 0x0A])),
      git_diffSummary = (\<lambda>args. Inr [''a.txt'']),
      git_show = (\<lambda>args. Inr ''v1'')\<rparr>"

text \<open>The same, with nothing to commit: \<^verbatim>\<open>git.commit\<close> reports the empty hash.\<close>

definition noChangesEnv :: env where
  "noChangesEnv = exampleEnv\<lparr>git_commit := (\<lambda>m allow. Inr \<lparr>commit = [], branch = []\<rparr>)\<rparr>"


text \<open>A workspace with a repository of its own and one nested under \<^verbatim>\<open>packages/lib\<close>.\<close>

definition nestedRepoEnv :: env where
  "nestedRepoEnv =
     exampleEnv\<lparr>executeRipgrep := (\<lambda>args ws.
        Inr [\<lparr>fr_type = ''folder'', fr_path = ''.git''\<rparr>,
             \<lparr>fr_type = ''file'', fr_path = ''.git/HEAD''\<rparr>,
             \<lparr>fr_type = ''folder'', fr_path = ''packages/lib/.git''\<rparr>,
             \<lparr>fr_type = ''file'', fr_path = ''packages/lib/.git/HEAD''\<rparr>])\<rparr>"

text \<open>A nested-repository scan that fails.\<close>

definition scanFailsEnv :: env where
  "scanFailsEnv = exampleEnv\<lparr>executeRipgrep := (\<lambda>args ws. Inl (ErrorObj ''spawn rg ENOENT''))\<rparr>"

text \<open>Blob and file reads that fail for \<^verbatim>\<open>a.txt\<close> and succeed for \<^verbatim>\<open>b.txt\<close>.\<close>

definition readsFailEnv :: env where
  "readsFailEnv =
     exampleEnv\<lparr>git_diffSummary := (\<lambda>args. Inr [''a.txt'', ''b.txt'']),
                git_show := (\<lambda>args. if args = [''b0:b.txt''] then Inr ''old b''
                                     else Inl (ErrorObj ''fatal: path does not exist'')),
                fs_readFile := (\<lambda>p. if p = ''/work/proj/b.txt'' then Inr ''new b''
                                     else Inl (ErrorObj ''ENOENT''))\<rparr>"

definition exampleWorld :: world where
  "exampleWorld = \<lparr>warningsShown = [], dialogs = [], telemetry = [], actions = []\<rparr>"

text \<open>
  A freshly constructed instance, and one that is initialized with three checkpoints;
  neither has a listener.
\<close>

definition freshService :: service where
  "freshService =
     \<lparr>className = ''RepoPerTaskCheckpointService'', taskId = ''t1'',
      checkpointsDir = ''/storage/tasks/t1/checkpoints'', workspaceDir = ''/work/proj'',
      checkpoints = [], baseHash = None,
      dotGitDir = ''/storage/tasks/t1/checkpoints/.git'', git = None,
      shadowGitConfigWorktree = None, emitted = [], logged = [], listeners = []\<rparr>"

definition exampleService :: service where
  "exampleService =
     freshService\<lparr>checkpoints := [Some ''c1'', Some ''c2'', Some ''c3''],
                  baseHash := Some ''b0'',
                  git := Some ''/storage/tasks/t1/checkpoints''\<rparr>"


section \<open>Properties\<close>

subsection \<open>Field lemmas\<close>

lemma log_fields [simp]:
  "className (log l s) = className s" "taskId (log l s) = taskId s"
  "checkpointsDir (log l s) = checkpointsDir s" "workspaceDir (log l s) = workspaceDir s"
  "checkpoints (log l s) = checkpoints s" "baseHash (log l s) = baseHash s"
  "dotGitDir (log l s) = dotGitDir s" "git (log l s) = git s"
  "shadowGitConfigWorktree (log l s) = shadowGitConfigWorktree s"
  "emitted (log l s) = emitted s"
  by (simp_all add: log_def)

lemma emit_fields [simp]:
  "className (snd (emit e ev s)) = className s" "taskId (snd (emit e ev s)) = taskId s"
  "checkpointsDir (snd (emit e ev s)) = checkpointsDir s"
  "workspaceDir (snd (emit e ev s)) = workspaceDir s"
  "checkpoints (snd (emit e ev s)) = checkpoints s" "baseHash (snd (emit e ev s)) = baseHash s"
  "dotGitDir (snd (emit e ev s)) = dotGitDir s" "git (snd (emit e ev s)) = git s"
  "shadowGitConfigWorktree (snd (emit e ev s)) = shadowGitConfigWorktree s"
  "emitted (snd (emit e ev s)) = emitted s @ [ev]"
  "logged (snd (emit e ev s)) = logged s"
  by (simp_all add: emit_def Let_def split: event.splits)

lemma emit_returns [simp]:
  "fst (emit e (InitializeEvent ws base created duration) s) =
     Inr (listenerCount s ''initialize'' \<noteq> 0)"
  "fst (emit e (CheckpointEvent fromHash toHash duration suppress) s) =
     Inr (listenerCount s ''checkpoint'' \<noteq> 0)"
  "fst (emit e (RestoreEvent h duration) s) = Inr (listenerCount s ''restore'' \<noteq> 0)"
  by (simp_all add: emit_def Let_def)

lemma emit_error:
  "fst (emit e (ErrorEvent err) s) =
     (if listenerCount s ''error'' = 0
      then Inl (ErrUnhandledError
                  (''Unhandled error. ('' @ util_inspect e (ErrorEvent err) @ '')'') err)
      else Inr True)"
  by (simp add: emit_def Let_def)

lemma case_emit [simp]:
  "(case emit e (InitializeEvent ws base created duration) s of
      (Inl err, s') \<Rightarrow> f err s' | (Inr r, s') \<Rightarrow> g r s') =
     g (listenerCount s ''initialize'' \<noteq> 0)
       (snd (emit e (InitializeEvent ws base created duration) s))"
  "(case emit e (CheckpointEvent fromHash toHash duration suppress) s of
      (Inl err, s') \<Rightarrow> f err s' | (Inr r, s') \<Rightarrow> g r s') =
     g (listenerCount s ''checkpoint'' \<noteq> 0)
       (snd (emit e (CheckpointEvent fromHash toHash duration suppress) s))"
  "(case emit e (RestoreEvent h duration) s of
      (Inl err, s') \<Rightarrow> f err s' | (Inr r, s') \<Rightarrow> g r s') =
     g (listenerCount s ''restore'' \<noteq> 0) (snd (emit e (RestoreEvent h duration) s))"
  by (simp_all add: case_prod_beta)

lemma listenerCount_log [simp]: "listenerCount (log l s) name = listenerCount s name"
  by (simp add: listenerCount_def log_def)

lemma actions_reportError [simp]: "actions (reportError c err w) = actions w"
  by (simp add: reportError_def)

lemma actions_showWarning [simp]: "actions (showWarning e m w) = actions w"
  by (simp add: showWarning_def)

lemma actions_perform [simp]: "actions (perform a w) = actions w @ [a]"
  by (simp add: perform_def)

lemma stageAll_fields [simp]:
  "checkpoints (fst (stageAll e s w)) = checkpoints s"
  "emitted (fst (stageAll e s w)) = emitted s"
  "baseHash (fst (stageAll e s w)) = baseHash s"
  "git (fst (stageAll e s w)) = git s"
  "listenerCount (fst (stageAll e s w)) name = listenerCount s name"
  by (simp_all add: stageAll_def Let_def split: sum.splits)

lemma toError_Error: "toError (ErrorObj m) = ErrorObj m"
  by simp

lemmas example_defs =
  exampleEnv_def exampleService_def freshService_def exampleWorld_def
  exampleDirname_def exampleRelative_def

lemmas emit_defs = emit_def listenerCount_def

subsection \<open>Array lemmas\<close>

lemma fromHash_eq:
  "(case lastElement cs of None \<Rightarrow> b | Some h \<Rightarrow> Some h) =
     (if cs = [] \<or> last cs = None then b else last cs)"
  by (auto simp: lastElement_def split: option.splits)

lemma indexOfFrom_absent: "x \<notin> set xs \<Longrightarrow> indexOfFrom xs x i = - 1"
  by (induction xs arbitrary: i) auto

lemma indexOfFrom_present:
  "x \<in> set xs \<Longrightarrow>
     \<exists>k < length xs. indexOfFrom xs x i = i + int k \<and> xs ! k = x \<and> x \<notin> set (take k xs)"
proof (induction xs arbitrary: i)
  case Nil
  then show ?case by simp
next
  case (Cons y ys)
  show ?case
  proof (cases "y = x")
    case True
    then show ?thesis by (intro exI [of _ 0]) simp
  next
    case False
    with Cons.prems have "x \<in> set ys" by simp
    from Cons.IH [OF this, of "i + 1"] obtain k where
      "k < length ys" "indexOfFrom ys x (i + 1) = i + 1 + int k"
      "ys ! k = x" "x \<notin> set (take k ys)"
      by blast
    with False show ?thesis by (intro exI [of _ "Suc k"]) auto
  qed
qed

lemma slice_from_0: "0 \<le> n \<Longrightarrow> slice xs 0 n = take (nat n) xs"
  by (auto simp: slice_def Let_def min_def)

subsection \<open>saveCheckpoint\<close>

text \<open>
  C1 (amended). On an initialized instance, when \<^verbatim>\<open>allowEmpty\<close> is not set and the
  commit step finds nothing to commit (simple-git reports the empty hash),
  \<^verbatim>\<open>saveCheckpoint\<close> returns \<^verbatim>\<open>undefined\<close> and emits no event, and the checkpoint
  sequence grows by exactly one entry, which repeats the previous last checkpoint
  (the base hash when the sequence was empty): \<^verbatim>\<open>toHash = result.commit || fromHash\<close> is
  pushed whether or not there was a commit.
\<close>

theorem saveCheckpoint_no_changes:
  assumes "git s = Some g"
    and "allowEmptyOf opts \<noteq> Some True"
    and "git_commit e message False = Inr result"
    and "commit result = []"
  shows "resultOf (saveCheckpoint e message opts s w) = Inr None
       \<and> checkpoints (serviceAfter (saveCheckpoint e message opts s w)) =
           checkpoints s @ [if checkpoints s = [] \<or> last (checkpoints s) = None
                            then baseHash s else last (checkpoints s)]
       \<and> emitted (serviceAfter (saveCheckpoint e message opts s w)) = emitted s"
  using assms
  by (simp add: saveCheckpoint_def Let_def case_prod_beta fromHash_eq)

theorem saveCheckpoint_no_changes_witness:
  "git exampleService = Some ''/storage/tasks/t1/checkpoints''
   \<and> allowEmptyOf None \<noteq> Some True
   \<and> git_commit noChangesEnv ''edit'' False = Inr \<lparr>commit = [], branch = []\<rparr>
   \<and> resultOf (saveCheckpoint noChangesEnv ''edit'' None exampleService exampleWorld) = Inr None
   \<and> checkpoints (serviceAfter (saveCheckpoint noChangesEnv ''edit'' None exampleService exampleWorld))
       = [Some ''c1'', Some ''c2'', Some ''c3'', Some ''c3'']
   \<and> emitted (serviceAfter (saveCheckpoint noChangesEnv ''edit'' None exampleService exampleWorld))
       = []"
proof -
  have h1: "git exampleService = Some ''/storage/tasks/t1/checkpoints''"
    by (simp add: example_defs)
  have h2: "allowEmptyOf None \<noteq> Some True"
    by (simp add: allowEmptyOf_def)
  have h3: "git_commit noChangesEnv ''edit'' False = Inr \<lparr>commit = [], branch = []\<rparr>"
    by (simp add: noChangesEnv_def example_defs)
  have h4: "commit \<lparr>commit = [], branch = []\<rparr> = []"
    by simp
  from saveCheckpoint_no_changes [OF h1 h2 h3 h4, of exampleWorld] h1 h2 h3
  show ?thesis by (simp add: example_defs)
qed

text \<open>
  The claim as stated fails: with nothing to commit and \<^verbatim>\<open>allowEmpty\<close> unset, the
  sequence \<^verbatim>\<open>[c1, c2, c3]\<close> becomes \<^verbatim>\<open>[c1, c2, c3, c3]\<close>.
\<close>

theorem saveCheckpoint_no_changes_grows_sequence:
  "isInitialized exampleService
   \<and> git_commit noChangesEnv ''edit'' False = Inr \<lparr>commit = [], branch = []\<rparr>
   \<and> resultOf (saveCheckpoint noChangesEnv ''edit'' None exampleService exampleWorld) = Inr None
   \<and> length (checkpoints (serviceAfter
        (saveCheckpoint noChangesEnv ''edit'' None exampleService exampleWorld))) = 4
   \<and> length (checkpoints exampleService) = 3"
  by (simp add: saveCheckpoint_def noChangesEnv_def example_defs isInitialized_def
      allowEmptyOf_def suppressMessageOf_def stageAll_def Let_def lastElement_def
      log_def emit_defs perform_def)

text \<open>
  C4. On an initialized instance whose commit step returns a non-empty hash,
  \<^verbatim>\<open>saveCheckpoint\<close> returns the commit result, appends exactly that hash to the
  checkpoint sequence, and emits exactly one event: a \<^verbatim>\<open>checkpoint\<close> event whose
  \<^verbatim>\<open>toHash\<close> is the appended hash and whose \<^verbatim>\<open>fromHash\<close> is the previous last checkpoint,
  or the base hash when the sequence was empty. The sequence of an initialized instance
  holds no \<^verbatim>\<open>undefined\<close> entry (\<open>initShadowGit_hashesDefined\<close>,
  \<open>saveCheckpoint_hashesDefined\<close>, \<open>restoreCheckpoint_hashesDefined\<close>), which is the second
  hypothesis.
\<close>

theorem saveCheckpoint_commit:
  assumes "git s = Some g"
    and "None \<notin> set (checkpoints s)"
    and "git_commit e message (allowEmptyOf opts = Some True) = Inr result"
    and "commit result \<noteq> []"
  shows "resultOf (saveCheckpoint e message opts s w) = Inr (Some result)
       \<and> checkpoints (serviceAfter (saveCheckpoint e message opts s w)) =
           checkpoints s @ [Some (commit result)]
       \<and> emitted (serviceAfter (saveCheckpoint e message opts s w)) =
           emitted s @
           [CheckpointEvent (if checkpoints s = [] then baseHash s else last (checkpoints s))
              (Some (commit result)) (now_end e - now_start e)
              (suppressMessageOf opts = Some True)]"
proof -
  from assms(2) have "checkpoints s \<noteq> [] \<Longrightarrow> last (checkpoints s) \<noteq> None"
    using last_in_set by metis
  with assms show ?thesis
    by (auto simp add: saveCheckpoint_def Let_def case_prod_beta fromHash_eq
        split: option.splits)
qed

theorem saveCheckpoint_commit_witness:
  "git exampleService = Some ''/storage/tasks/t1/checkpoints''
   \<and> None \<notin> set (checkpoints exampleService)
   \<and> git_commit exampleEnv ''edit'' False = Inr \<lparr>commit = ''c4'', branch = ''master''\<rparr>
   \<and> resultOf (saveCheckpoint exampleEnv ''edit'' None exampleService exampleWorld)
       = Inr (Some \<lparr>commit = ''c4'', branch = ''master''\<rparr>)
   \<and> checkpoints (serviceAfter (saveCheckpoint exampleEnv ''edit'' None exampleService exampleWorld))
       = [Some ''c1'', Some ''c2'', Some ''c3'', Some ''c4'']
   \<and> emitted (serviceAfter (saveCheckpoint exampleEnv ''edit'' None exampleService exampleWorld))
       = [CheckpointEvent (Some ''c3'') (Some ''c4'') 30 False]"
proof -
  have h1: "git exampleService = Some ''/storage/tasks/t1/checkpoints''"
    by (simp add: example_defs)
  have h2: "None \<notin> set (checkpoints exampleService)"
    by (simp add: example_defs)
  have h3: "git_commit exampleEnv ''edit'' (allowEmptyOf None = Some True)
              = Inr \<lparr>commit = ''c4'', branch = ''master''\<rparr>"
    by (simp add: example_defs)
  have h4: "commit \<lparr>commit = ''c4'', branch = ''master''\<rparr> \<noteq> []"
    by simp
  from saveCheckpoint_commit [OF h1 h2 h3 h4, of exampleWorld] h1 h2 h3
  show ?thesis by (simp add: example_defs allowEmptyOf_def suppressMessageOf_def)
qed

lemma saveCheckpoint_catch_fields [simp]:
  "checkpoints (serviceAfter (saveCheckpoint_catch e caught s w)) = checkpoints s"
  "baseHash (serviceAfter (saveCheckpoint_catch e caught s w)) = baseHash s"
  "git (serviceAfter (saveCheckpoint_catch e caught s w)) = git s"
  "emitted (serviceAfter (saveCheckpoint_catch e caught s w)) =
     emitted s @ [ErrorEvent (toError caught)]"
  by (simp_all add: saveCheckpoint_catch_def Let_def case_prod_beta split: sum.splits)

lemma saveCheckpoint_catch_result:
  "resultOf (saveCheckpoint_catch e caught s w) =
     (if listenerCount s ''error'' = 0
      then Inl (ErrUnhandledError
                  (''Unhandled error. ('' @ util_inspect e (ErrorEvent (toError caught)) @ '')'')
                  (toError caught))
      else Inl (toError caught))"
  by (simp add: saveCheckpoint_catch_def Let_def case_prod_beta emit_error)

text \<open>
  What the staging step does has no part in what \<^verbatim>\<open>saveCheckpoint\<close> returns, appends or
  emits: \<^verbatim>\<open>stageAll\<close> catches a throw of \<^verbatim>\<open>git.add\<close>, so of the git calls only
  \<^verbatim>\<open>git.commit\<close> can fail the save.
\<close>

lemma saveCheckpoint_staging_throw_caught:
  "resultOf (saveCheckpoint (e\<lparr>git_add := add\<rparr>) message opts s w) =
     resultOf (saveCheckpoint e message opts s w)
   \<and> checkpoints (serviceAfter (saveCheckpoint (e\<lparr>git_add := add\<rparr>) message opts s w)) =
       checkpoints (serviceAfter (saveCheckpoint e message opts s w))
   \<and> emitted (serviceAfter (saveCheckpoint (e\<lparr>git_add := add\<rparr>) message opts s w)) =
       emitted (serviceAfter (saveCheckpoint e message opts s w))"
  by (simp add: saveCheckpoint_def Let_def case_prod_beta saveCheckpoint_catch_result
      split: option.splits sum.splits)

text \<open>
  With no \<^verbatim>\<open>error\<close> listener, which is how every instance starts, the \<^verbatim>\<open>emit\<close> of the
  \<^verbatim>\<open>catch\<close> block throws and the \<^verbatim>\<open>throw error\<close> after it is not reached.
\<close>

lemma saveCheckpoint_commit_throws_unheard:
  assumes "git s = Some g"
    and "listenerCount s ''error'' = 0"
    and "git_commit e message (allowEmptyOf opts = Some True) = Inl err"
  shows "resultOf (saveCheckpoint e message opts s w) =
           Inl (ErrUnhandledError
                  (''Unhandled error. ('' @ util_inspect e (ErrorEvent (toError err)) @ '')'')
                  (toError err))
       \<and> checkpoints (serviceAfter (saveCheckpoint e message opts s w)) = checkpoints s"
  using assms
  by (simp add: saveCheckpoint_def Let_def case_prod_beta saveCheckpoint_catch_result)




subsection \<open>restoreCheckpoint\<close>

lemma restoreCheckpoint_success:
  assumes "git s = Some g"
    and "git_clean e ''f'' [''-d'', ''-f''] = Inr ()"
    and "git_reset e [''--hard'', h] = Inr ()"
  shows "checkpoints (serviceAfter (restoreCheckpoint e h s w)) =
           (if indexOf (checkpoints s) (Some h) \<noteq> - 1
            then slice (checkpoints s) 0 (indexOf (checkpoints s) (Some h) + 1)
            else checkpoints s)"
  using assms by (simp add: restoreCheckpoint_def Let_def case_prod_beta)

text \<open>
  C2. On an initialized instance whose checkpoint sequence contains \<^verbatim>\<open>commitHash\<close>, a
  \<^verbatim>\<open>restoreCheckpoint(commitHash)\<close> whose clean and reset succeed truncates the sequence:
  what is left is a prefix of the old sequence that ends in \<^verbatim>\<open>commitHash\<close> (at its first
  occurrence), and every later entry is gone.
\<close>

theorem restoreCheckpoint_truncates:
  assumes "git s = Some g"
    and "Some h \<in> set (checkpoints s)"
    and "git_clean e ''f'' [''-d'', ''-f''] = Inr ()"
    and "git_reset e [''--hard'', h] = Inr ()"
  shows "\<exists>later. checkpoints s = checkpoints (serviceAfter (restoreCheckpoint e h s w)) @ later
           \<and> checkpoints (serviceAfter (restoreCheckpoint e h s w)) \<noteq> []
           \<and> last (checkpoints (serviceAfter (restoreCheckpoint e h s w))) = Some h
           \<and> Some h \<notin> set (butlast (checkpoints (serviceAfter (restoreCheckpoint e h s w))))"
proof -
  let ?cs = "checkpoints s"
  from indexOfFrom_present [OF assms(2), of 0] obtain k where
    k: "k < length ?cs" "indexOf ?cs (Some h) = int k" "?cs ! k = Some h"
       "Some h \<notin> set (take k ?cs)"
    by (auto simp: indexOf_def)
  have new: "checkpoints (serviceAfter (restoreCheckpoint e h s w)) = take (Suc k) ?cs"
    using restoreCheckpoint_success [OF assms(1,3,4), of w] k(2)
    by (simp add: slice_from_0 nat_add_distrib)
  have "?cs = take (Suc k) ?cs @ drop (Suc k) ?cs"
    by simp
  moreover have "take (Suc k) ?cs \<noteq> []"
    using k(1) by auto
  moreover have "last (take (Suc k) ?cs) = Some h"
    using k(1,3) by (simp add: take_Suc_conv_app_nth)
  moreover have "Some h \<notin> set (butlast (take (Suc k) ?cs))"
    using k(1,4) by (simp add: take_Suc_conv_app_nth)
  ultimately show ?thesis
    unfolding new by blast
qed

theorem restoreCheckpoint_truncates_witness:
  "git exampleService = Some ''/storage/tasks/t1/checkpoints''
   \<and> Some ''c2'' \<in> set (checkpoints exampleService)
   \<and> git_clean exampleEnv ''f'' [''-d'', ''-f''] = Inr ()
   \<and> git_reset exampleEnv [''--hard'', ''c2''] = Inr ()
   \<and> (\<exists>later. checkpoints exampleService =
         checkpoints (serviceAfter (restoreCheckpoint exampleEnv ''c2'' exampleService exampleWorld))
           @ later
       \<and> checkpoints (serviceAfter
           (restoreCheckpoint exampleEnv ''c2'' exampleService exampleWorld)) \<noteq> []
       \<and> last (checkpoints (serviceAfter
           (restoreCheckpoint exampleEnv ''c2'' exampleService exampleWorld))) = Some ''c2''
       \<and> Some ''c2'' \<notin> set (butlast (checkpoints (serviceAfter
           (restoreCheckpoint exampleEnv ''c2'' exampleService exampleWorld)))))"
proof -
  have h1: "git exampleService = Some ''/storage/tasks/t1/checkpoints''"
    by (simp add: example_defs)
  have h2: "Some ''c2'' \<in> set (checkpoints exampleService)"
    by (simp add: example_defs)
  have h3: "git_clean exampleEnv ''f'' [''-d'', ''-f''] = Inr ()"
    by (simp add: example_defs)
  have h4: "git_reset exampleEnv [''--hard'', ''c2''] = Inr ()"
    by (simp add: example_defs)
  from restoreCheckpoint_truncates [OF h1 h2 h3 h4, of exampleWorld] h1 h2 h3 h4
  show ?thesis by blast
qed

text \<open>
  C3. A \<^verbatim>\<open>restoreCheckpoint\<close> with a hash that does not occur in the checkpoint sequence
  (the base hash, for one) leaves the sequence unchanged, whether the call succeeds or
  throws.
\<close>

theorem restoreCheckpoint_unknown_hash:
  "Some h \<notin> set (checkpoints s) \<Longrightarrow>
     checkpoints (serviceAfter (restoreCheckpoint e h s w)) = checkpoints s"
  by (auto simp: restoreCheckpoint_def restoreCheckpoint_catch_def Let_def case_prod_beta indexOf_def
      indexOfFrom_absent split: option.splits sum.splits)

theorem restoreCheckpoint_unknown_hash_witness:
  "isInitialized exampleService
   \<and> baseHash exampleService = Some ''b0''
   \<and> Some ''b0'' \<notin> set (checkpoints exampleService)
   \<and> checkpoints (serviceAfter (restoreCheckpoint exampleEnv ''b0'' exampleService exampleWorld))
       = [Some ''c1'', Some ''c2'', Some ''c3'']"
proof -
  have h: "Some ''b0'' \<notin> set (checkpoints exampleService)"
    by (simp add: example_defs)
  from restoreCheckpoint_unknown_hash [OF h, of exampleEnv exampleWorld] h
  show ?thesis by (simp add: example_defs isInitialized_def)
qed

subsection \<open>The constructor\<close>

text \<open>
  C6. For a workspace directory equal to the home directory or to its \<^verbatim>\<open>Desktop\<close>,
  \<^verbatim>\<open>Documents\<close> or \<^verbatim>\<open>Downloads\<close> directory, the constructor throws
  \<^verbatim>\<open>Cannot use checkpoints in <workspaceDir>\<close>, and no call of a filesystem or git API
  has been issued when it does.
\<close>

theorem constructor_protected_path:
  assumes "wsDir \<in> {os_homedir e, path_join e [os_homedir e, ''Desktop''],
                     path_join e [os_homedir e, ''Documents''],
                     path_join e [os_homedir e, ''Downloads'']}"
  shows "fst (constructor e cls tid cpDir wsDir w) =
           Inl (ErrorObj (''Cannot use checkpoints in '' @ wsDir))
       \<and> actions (snd (constructor e cls tid cpDir wsDir w)) = actions w"
  using assms by (auto simp: constructor_def Let_def)

theorem constructor_protected_path_witness:
  "''/home/u/Desktop'' \<in> {os_homedir exampleEnv,
                            path_join exampleEnv [os_homedir exampleEnv, ''Desktop''],
                            path_join exampleEnv [os_homedir exampleEnv, ''Documents''],
                            path_join exampleEnv [os_homedir exampleEnv, ''Downloads'']}
   \<and> fst (constructor exampleEnv ''RepoPerTaskCheckpointService'' ''t1''
            ''/storage/tasks/t1/checkpoints'' ''/home/u/Desktop'' exampleWorld) =
         Inl (ErrorObj ''Cannot use checkpoints in /home/u/Desktop'')
   \<and> actions (snd (constructor exampleEnv ''RepoPerTaskCheckpointService'' ''t1''
            ''/storage/tasks/t1/checkpoints'' ''/home/u/Desktop'' exampleWorld)) = []"
proof -
  have h: "''/home/u/Desktop'' \<in> {os_homedir exampleEnv,
                            path_join exampleEnv [os_homedir exampleEnv, ''Desktop''],
                            path_join exampleEnv [os_homedir exampleEnv, ''Documents''],
                            path_join exampleEnv [os_homedir exampleEnv, ''Downloads'']}"
    by (simp add: example_defs)
  from constructor_protected_path [OF h, of "''RepoPerTaskCheckpointService''" "''t1''"
      "''/storage/tasks/t1/checkpoints''" exampleWorld] h
  show ?thesis by (simp add: exampleWorld_def)
qed

subsection \<open>initShadowGit: the guards\<close>

lemma openShadowGit_git:
  "resultOf (openShadowGit e onInit s w) = Inr r \<Longrightarrow>
     git (serviceAfter (openShadowGit e onInit s w)) \<noteq> None"
  by (auto simp: openShadowGit_def Let_def case_prod_beta
      split: sum.splits option.splits if_splits)

lemma initShadowGit_git:
  "resultOf (initShadowGit e onInit s w) = Inr r \<Longrightarrow>
     git (serviceAfter (initShadowGit e onInit s w)) \<noteq> None"
  by (auto simp: initShadowGit_def Let_def
      split: sum.splits prod.splits option.splits if_splits dest: openShadowGit_git)

text \<open>
  C7. Once \<^verbatim>\<open>initShadowGit\<close> has returned normally on an instance, any further call on
  that instance, whatever the collaborators then do, throws
  \<^verbatim>\<open>Shadow git repo already initialized\<close> and changes nothing.
\<close>

theorem initShadowGit_twice:
  assumes "resultOf (initShadowGit e onInit s w) = Inr r"
  shows "initShadowGit e' onInit' (serviceAfter (initShadowGit e onInit s w)) w' =
           (Inl (ErrorObj ''Shadow git repo already initialized''),
            serviceAfter (initShadowGit e onInit s w), w')"
  using initShadowGit_git [OF assms] by (simp add: initShadowGit_def)

lemma initShadowGit_example:
  "initShadowGit exampleEnv None freshService exampleWorld =
     (Inr (True, 30),
      freshService\<lparr>baseHash := Some ''c4'',
                   git := Some ''/storage/tasks/t1/checkpoints'',
                   emitted := [InitializeEvent ''/work/proj'' (Some ''c4'') True 30],
                   logged := [LogGitVersion ''2.43.0'',
                              LogCreatingRepo ''/storage/tasks/t1/checkpoints'',
                              LogInitialized (Some ''c4'') 30]\<rparr>,
      exampleWorld\<lparr>actions :=
        [FsMkdir ''/storage/tasks/t1/checkpoints'', GitInit,
         GitAddConfig ''core.worktree'' ''/work/proj'',
         GitAddConfig ''commit.gpgSign'' ''false'',
         GitAddConfig ''user.name'' ''Kilo Code'',
         GitAddConfig ''user.email'' ''noreply@example.com'',
         FsMkdir ''/storage/tasks/t1/checkpoints/.git/info'',
         FsWriteFile ''/storage/tasks/t1/checkpoints/.git/info/exclude''
           (''node_modules/'' @ [CHR 0x0A] @ ''.DS_Store''),
         GitAdd ''.'', GitCommit ''initial commit'' True]\<rparr>)"
  by (simp add: initShadowGit_def getNestedGitRepository_def truthy_def openShadowGit_def
      createShadowGit_def writeExcludeFile_def stageAll_def example_defs Let_def
      log_def emit_defs perform_def)

theorem initShadowGit_twice_witness:
  "resultOf (initShadowGit exampleEnv None freshService exampleWorld) = Inr (True, 30)
   \<and> resultOf (initShadowGit exampleEnv None
        (serviceAfter (initShadowGit exampleEnv None freshService exampleWorld))
        (worldAfter (initShadowGit exampleEnv None freshService exampleWorld))) =
       Inl (ErrorObj ''Shadow git repo already initialized'')"
proof -
  have h: "resultOf (initShadowGit exampleEnv None freshService exampleWorld) = Inr (True, 30)"
    by (simp add: initShadowGit_example)
  from initShadowGit_twice [OF h, of exampleEnv None
      "worldAfter (initShadowGit exampleEnv None freshService exampleWorld)"] h
  show ?thesis by simp
qed

text \<open>
  C5. When the scan reports a \<^verbatim>\<open>.git/HEAD\<close> file other than the root's own,
  \<^verbatim>\<open>initShadowGit\<close> on an instance that is not yet initialized throws an error whose
  message names the path of the first such repository relative to the workspace. No
  filesystem or git call has been issued, so no repository and no base commit exist;
  the base hash and the checkpoint sequence are untouched, nothing is emitted, and the
  instance is still uninitialized. (\<^verbatim>\<open>path.join\<close> never returns the empty string, which
  is the last hypothesis.)
\<close>

theorem initShadowGit_nested_repository:
  assumes "git s = None"
    and "executeRipgrep e [''--files'', ''--hidden'', ''--follow'', ''-g'', ''**/.git/HEAD'',
                           workspaceDir s] (workspaceDir s) = Inr gitPaths"
    and "filter isNestedGitHead gitPaths = first # others"
    and "path_join e [workspaceDir s, path_dirname e (path_dirname e (fr_path first))] \<noteq> []"
  shows "resultOf (initShadowGit e onInit s w) =
           Inl (ErrorObj
             (''Checkpoints are disabled because a nested git repository was detected at: '' @
              path_relative e (workspaceDir s)
                (path_join e [workspaceDir s, path_dirname e (path_dirname e (fr_path first))]) @
              ''. Please remove or relocate nested git repositories to use the checkpoints feature.''))
       \<and> \<not> isInitialized (serviceAfter (initShadowGit e onInit s w))
       \<and> baseHash (serviceAfter (initShadowGit e onInit s w)) = baseHash s
       \<and> checkpoints (serviceAfter (initShadowGit e onInit s w)) = checkpoints s
       \<and> emitted (serviceAfter (initShadowGit e onInit s w)) = emitted s
       \<and> actions (worldAfter (initShadowGit e onInit s w)) = actions w"
  using assms
  by (simp add: initShadowGit_def getNestedGitRepository_def Let_def truthy_def
      isInitialized_def)

theorem initShadowGit_nested_repository_witness:
  "git freshService = None
   \<and> filter isNestedGitHead
        [\<lparr>fr_type = ''folder'', fr_path = ''.git''\<rparr>,
         \<lparr>fr_type = ''file'', fr_path = ''.git/HEAD''\<rparr>,
         \<lparr>fr_type = ''folder'', fr_path = ''packages/lib/.git''\<rparr>,
         \<lparr>fr_type = ''file'', fr_path = ''packages/lib/.git/HEAD''\<rparr>]
       = [\<lparr>fr_type = ''file'', fr_path = ''packages/lib/.git/HEAD''\<rparr>]
   \<and> resultOf (initShadowGit nestedRepoEnv None freshService exampleWorld) =
       Inl (ErrorObj
         (''Checkpoints are disabled because a nested git repository was detected at: '' @
          ''packages/lib'' @
          ''. Please remove or relocate nested git repositories to use the checkpoints feature.''))
   \<and> \<not> isInitialized (serviceAfter (initShadowGit nestedRepoEnv None freshService exampleWorld))
   \<and> baseHash (serviceAfter (initShadowGit nestedRepoEnv None freshService exampleWorld)) = None
   \<and> actions (worldAfter (initShadowGit nestedRepoEnv None freshService exampleWorld)) = []"
proof -
  let ?paths = "[\<lparr>fr_type = ''folder'', fr_path = ''.git''\<rparr>,
         \<lparr>fr_type = ''file'', fr_path = ''.git/HEAD''\<rparr>,
         \<lparr>fr_type = ''folder'', fr_path = ''packages/lib/.git''\<rparr>,
         \<lparr>fr_type = ''file'', fr_path = ''packages/lib/.git/HEAD''\<rparr>]"
  let ?first = "\<lparr>fr_type = ''file'', fr_path = ''packages/lib/.git/HEAD''\<rparr>"
  have h1: "git freshService = None"
    by (simp add: example_defs)
  have h2: "executeRipgrep nestedRepoEnv
              [''--files'', ''--hidden'', ''--follow'', ''-g'', ''**/.git/HEAD'',
               workspaceDir freshService] (workspaceDir freshService) = Inr ?paths"
    by (simp add: nestedRepoEnv_def example_defs)
  have h3: "filter isNestedGitHead ?paths = ?first # []"
    by (simp add: isNestedGitHead_def normalizeSlashes_def)
  have dir: "path_dirname nestedRepoEnv (path_dirname nestedRepoEnv (fr_path ?first))
               = ''packages/lib''"
    by (simp add: nestedRepoEnv_def example_defs)
  have h4: "path_join nestedRepoEnv [workspaceDir freshService,
              path_dirname nestedRepoEnv (path_dirname nestedRepoEnv (fr_path ?first))] \<noteq> []"
    unfolding dir by (simp add: nestedRepoEnv_def example_defs)
  have rel: "path_relative nestedRepoEnv (workspaceDir freshService)
               (path_join nestedRepoEnv [workspaceDir freshService,
                  path_dirname nestedRepoEnv (path_dirname nestedRepoEnv (fr_path ?first))])
             = ''packages/lib''"
    unfolding dir by (simp add: nestedRepoEnv_def example_defs)
  from initShadowGit_nested_repository [OF h1 h2 h3 h4, of None exampleWorld] h1 h3
  show ?thesis
    unfolding rel by (simp add: example_defs)
qed

subsection \<open>initShadowGit: a failed scan\<close>

lemma withoutLog_fields:
  assumes "withoutLog s' = withoutLog s"
  shows "className s' = className s" "taskId s' = taskId s"
    "checkpointsDir s' = checkpointsDir s" "workspaceDir s' = workspaceDir s"
    "checkpoints s' = checkpoints s" "baseHash s' = baseHash s"
    "dotGitDir s' = dotGitDir s" "git s' = git s"
    "shadowGitConfigWorktree s' = shadowGitConfigWorktree s" "emitted s' = emitted s"
    "listeners s' = listeners s"
  using assms by (cases s; cases s'; simp add: withoutLog_def)+

lemma withoutLog_simps [simp]:
  "withoutLog (log l s) = withoutLog s"
  "withoutLog (snd (emit e ev s)) = snd (emit e ev (withoutLog s))"
  "withoutLog (s\<lparr>baseHash := b\<rparr>) = (withoutLog s)\<lparr>baseHash := b\<rparr>"
  "withoutLog (s\<lparr>git := g\<rparr>) = (withoutLog s)\<lparr>git := g\<rparr>"
  "withoutLog (s\<lparr>shadowGitConfigWorktree := t\<rparr>) = (withoutLog s)\<lparr>shadowGitConfigWorktree := t\<rparr>"
  by (cases s; simp add: withoutLog_def log_def emit_defs Let_def split: event.splits)+

lemma withoutTelemetry_simps [simp]:
  "withoutTelemetry (reportError c err w) = withoutTelemetry w"
  "withoutTelemetry (perform a w) = perform a (withoutTelemetry w)"
  by (cases w; simp add: withoutTelemetry_def reportError_def perform_def)+

lemma stageAll_erased:
  assumes "withoutLog s' = withoutLog s" and "withoutTelemetry w' = withoutTelemetry w"
  shows "withoutLog (fst (stageAll e s' w')) = withoutLog (fst (stageAll e s w))"
    and "withoutTelemetry (snd (stageAll e s' w')) = withoutTelemetry (snd (stageAll e s w))"
  using assms by (simp_all add: stageAll_def Let_def split: sum.splits)

lemma getShadowGitConfigWorktree_erased:
  assumes "withoutLog s' = withoutLog s" and "withoutTelemetry w' = withoutTelemetry w"
  shows "observable (getShadowGitConfigWorktree e s' w') = observable (getShadowGitConfigWorktree e s w)"
  using assms withoutLog_fields(9) [OF assms(1)]
  by (simp add: getShadowGitConfigWorktree_def Let_def observable_def split: sum.splits)

lemma writeExcludeFile_erased:
  assumes "withoutLog s' = withoutLog s" and "withoutTelemetry w' = withoutTelemetry w"
  shows "fst (writeExcludeFile e s' w') = fst (writeExcludeFile e s w)"
    and "withoutTelemetry (snd (writeExcludeFile e s' w')) = withoutTelemetry (snd (writeExcludeFile e s w))"
  using assms withoutLog_fields(4,7) [OF assms(1)]
  by (simp_all add: writeExcludeFile_def Let_def split: sum.splits)

lemma addConfigs_erased:
  assumes "withoutTelemetry w' = withoutTelemetry w"
  shows "fst (addConfigs e kvs w') = fst (addConfigs e kvs w)
       \<and> withoutTelemetry (snd (addConfigs e kvs w')) = withoutTelemetry (snd (addConfigs e kvs w))"
  using assms
proof (induction kvs arbitrary: w w')
  case Nil
  then show ?case by simp
next
  case (Cons kv kvs)
  obtain k v where kv: "kv = (k, v)" by (cases kv)
  from Cons.prems have "withoutTelemetry (perform (GitAddConfig k v) w') =
      withoutTelemetry (perform (GitAddConfig k v) w)" by simp
  from Cons.IH [OF this] Cons.prems show ?case
    by (simp add: kv split: sum.splits)
qed


lemma reopenShadowGit_erased:
  assumes S: "withoutLog s' = withoutLog s" and W: "withoutTelemetry w' = withoutTelemetry w"
  shows "observable (reopenShadowGit e s' w') = observable (reopenShadowGit e s w)"
proof -
  let ?l = "LogRepoExists (dotGitDir s)"
  obtain wt s2 w2 where G: "getShadowGitConfigWorktree e (log ?l s) w = (wt, s2, w2)"
    by (cases "getShadowGitConfigWorktree e (log ?l s) w")
  obtain wt' s2' w2' where G': "getShadowGitConfigWorktree e (log ?l s') w' = (wt', s2', w2')"
    by (cases "getShadowGitConfigWorktree e (log ?l s') w'")
  have "observable (getShadowGitConfigWorktree e (log ?l s') w') =
        observable (getShadowGitConfigWorktree e (log ?l s) w)"
    by (rule getShadowGitConfigWorktree_erased) (simp_all add: S W)
  with G G' have r: "wt' = wt" "withoutLog s2' = withoutLog s2"
      "withoutTelemetry w2' = withoutTelemetry w2"
    by (simp_all add: observable_def)
  obtain x w3 where X: "writeExcludeFile e s2 w2 = (x, w3)"
    by (cases "writeExcludeFile e s2 w2")
  obtain x' w3' where X': "writeExcludeFile e s2' w2' = (x', w3')"
    by (cases "writeExcludeFile e s2' w2'")
  from writeExcludeFile_erased [OF r(2,3), of e] X X'
  have x: "x' = x" "withoutTelemetry w3' = withoutTelemetry w3"
    by simp_all
  show ?thesis
    using G G' X X' r x withoutLog_fields(4) [OF r(2)] withoutLog_fields(7) [OF S] S W
    by (simp add: reopenShadowGit_def Let_def observable_def split: sum.splits)
qed

lemma createShadowGit_erased:
  assumes S: "withoutLog s' = withoutLog s" and W: "withoutTelemetry w' = withoutTelemetry w"
  shows "observable (createShadowGit e s' w') = observable (createShadowGit e s w)"
proof -
  let ?l = "LogCreatingRepo (checkpointsDir s)"
  let ?kvs = "[(''core.worktree'', workspaceDir s), (''commit.gpgSign'', ''false''),
               (''user.name'', ''Kilo Code''), (''user.email'', ''noreply@example.com'')]"
  have S1: "withoutLog (log ?l s') = withoutLog (log ?l s)"
    by (simp add: S)
  have W1: "withoutTelemetry (perform GitInit w') = withoutTelemetry (perform GitInit w)"
    by (simp add: W)
  obtain a w2 where A: "addConfigs e ?kvs (perform GitInit w) = (a, w2)"
    by (cases "addConfigs e ?kvs (perform GitInit w)")
  obtain a' w2' where A': "addConfigs e ?kvs (perform GitInit w') = (a', w2')"
    by (cases "addConfigs e ?kvs (perform GitInit w')")
  from addConfigs_erased [OF W1, of e ?kvs] A A'
  have a: "a' = a" "withoutTelemetry w2' = withoutTelemetry w2"
    by simp_all
  obtain x w3 where X: "writeExcludeFile e (log ?l s) w2 = (x, w3)"
    by (cases "writeExcludeFile e (log ?l s) w2")
  obtain x' w3' where X': "writeExcludeFile e (log ?l s') w2' = (x', w3')"
    by (cases "writeExcludeFile e (log ?l s') w2'")
  from writeExcludeFile_erased [OF S1 a(2), of e] X X'
  have x: "x' = x" "withoutTelemetry w3' = withoutTelemetry w3"
    by simp_all
  obtain s4 w4 where T: "stageAll e (log ?l s) w3 = (s4, w4)"
    by (cases "stageAll e (log ?l s) w3")
  obtain s4' w4' where T': "stageAll e (log ?l s') w3' = (s4', w4')"
    by (cases "stageAll e (log ?l s') w3'")
  from stageAll_erased [OF S1 x(2), of e] T T'
  have t: "withoutLog s4' = withoutLog s4" "withoutTelemetry w4' = withoutTelemetry w4"
    by simp_all
  show ?thesis
    using A A' X X' T T' a x t withoutLog_fields(3,4) [OF S] S W
    by (simp add: createShadowGit_def Let_def observable_def split: sum.splits
        del: addConfigs.simps)
qed

lemma openShadowGit_erased:
  assumes S: "withoutLog s' = withoutLog s" and W: "withoutTelemetry w' = withoutTelemetry w"
  shows "observable (openShadowGit e onInit s' w') = observable (openShadowGit e onInit s w)"
proof -
  note f = withoutLog_fields [OF S]
  let ?w1 = "perform (FsMkdir (checkpointsDir s)) w"
  let ?w1' = "perform (FsMkdir (checkpointsDir s)) w'"
  have W1: "withoutTelemetry ?w1' = withoutTelemetry ?w1"
    by (simp add: W)
  show ?thesis
  proof (cases "fs_mkdir e (checkpointsDir s)")
    case (Inl err)
    then show ?thesis using S W1 f(3)
      by (simp add: openShadowGit_def Let_def observable_def)
  next
    case mk: (Inr u)
    show ?thesis
    proof (cases "git_version e")
      case (Inl err)
      then show ?thesis using S W1 f(3) mk
        by (simp add: openShadowGit_def Let_def observable_def)
    next
      case ver: (Inr gitVersion)
      let ?s1 = "log (LogGitVersion gitVersion) s"
      let ?s1' = "log (LogGitVersion gitVersion) s'"
      let ?b = "if fileExistsAtPath e (dotGitDir s) then reopenShadowGit e ?s1 ?w1
                else createShadowGit e ?s1 ?w1"
      let ?b' = "if fileExistsAtPath e (dotGitDir s) then reopenShadowGit e ?s1' ?w1'
                 else createShadowGit e ?s1' ?w1'"
      have S1: "withoutLog ?s1' = withoutLog ?s1"
        by (simp add: S)
      have B: "observable ?b' = observable ?b"
        using reopenShadowGit_erased [OF S1 W1] createShadowGit_erased [OF S1 W1]
        by simp
      obtain r s2 w2 where R: "?b = (r, s2, w2)"
        by (cases ?b)
      obtain r' s2' w2' where R': "?b' = (r', s2', w2')"
        by (cases ?b')
      from B R R' have b: "r' = r" "withoutLog s2' = withoutLog s2"
          "withoutTelemetry w2' = withoutTelemetry w2"
        by (simp_all add: observable_def)
      note f2 = withoutLog_fields [OF b(2)]
      show ?thesis
        using mk ver R R' b f(3,7) f2(3,4,6)
        by (simp add: openShadowGit_def Let_def observable_def
            split: sum.splits option.splits)
    qed
  qed
qed

lemma emit_env [simp]: "emit (e\<lparr>executeRipgrep := x\<rparr>) ev s = emit e ev s"
  by (simp add: emit_def Let_def cong: event.case_cong if_cong)

lemma stageAll_env [simp]: "stageAll (e\<lparr>executeRipgrep := x\<rparr>) s w = stageAll e s w"
  by (simp add: stageAll_def Let_def cong: sum.case_cong)

lemma getShadowGitConfigWorktree_env [simp]:
  "getShadowGitConfigWorktree (e\<lparr>executeRipgrep := x\<rparr>) s w = getShadowGitConfigWorktree e s w"
  by (simp add: getShadowGitConfigWorktree_def Let_def cong: sum.case_cong if_cong)

lemma writeExcludeFile_env [simp]:
  "writeExcludeFile (e\<lparr>executeRipgrep := x\<rparr>) s w = writeExcludeFile e s w"
  by (simp add: writeExcludeFile_def Let_def cong: sum.case_cong)

lemma addConfigs_env [simp]:
  "addConfigs (e\<lparr>executeRipgrep := x\<rparr>) kvs w = addConfigs e kvs w"
  by (induction kvs arbitrary: w) (auto split: sum.splits)

lemma reopenShadowGit_env [simp]:
  "reopenShadowGit (e\<lparr>executeRipgrep := x\<rparr>) s w = reopenShadowGit e s w"
  by (simp add: reopenShadowGit_def Let_def cong: sum.case_cong prod.case_cong if_cong)

lemma createShadowGit_env [simp]:
  "createShadowGit (e\<lparr>executeRipgrep := x\<rparr>) s w = createShadowGit e s w"
  by (simp add: createShadowGit_def Let_def del: addConfigs.simps
      cong: sum.case_cong prod.case_cong)

lemma openShadowGit_env [simp]:
  "openShadowGit (e\<lparr>executeRipgrep := x\<rparr>) onInit s w = openShadowGit e onInit s w"
  by (simp add: openShadowGit_def Let_def
      cong: sum.case_cong prod.case_cong option.case_cong if_cong)

lemma initShadowGit_scan_throws:
  assumes "git s = None"
    and "executeRipgrep e [''--files'', ''--hidden'', ''--follow'', ''-g'', ''**/.git/HEAD'',
                           workspaceDir s] (workspaceDir s) = Inl err"
  shows "initShadowGit e onInit s w =
           openShadowGit e onInit (log (LogNestedCheckFailed (errorMessage err)) s)
             (reportError (className s @ ''#hasNestedGitRepositories'') err w)"
  using assms by (simp add: initShadowGit_def getNestedGitRepository_def truthy_def)

lemma initShadowGit_nothing_nested:
  assumes "git s = None"
    and "executeRipgrep e [''--files'', ''--hidden'', ''--follow'', ''-g'', ''**/.git/HEAD'',
                           workspaceDir s] (workspaceDir s) = Inr gitPaths"
    and "filter isNestedGitHead gitPaths = []"
  shows "initShadowGit e onInit s w = openShadowGit e onInit s w"
  using assms by (simp add: initShadowGit_def getNestedGitRepository_def truthy_def)

text \<open>
  C10. When the nested-repository scan itself throws, \<^verbatim>\<open>initShadowGit\<close> on an instance
  that is not yet initialized goes on with the initialization from \<^verbatim>\<open>fs.mkdir\<close>, and
  what it returns, the instance it leaves and the calls it issues are those of the same
  run over a workspace whose scan reports no nested repository; only the log and the
  telemetry differ, by the entries for the failed scan.
\<close>

theorem initShadowGit_scan_failure:
  assumes "git s = None"
    and "executeRipgrep e [''--files'', ''--hidden'', ''--follow'', ''-g'', ''**/.git/HEAD'',
                           workspaceDir s] (workspaceDir s) = Inl err"
    and "scan [''--files'', ''--hidden'', ''--follow'', ''-g'', ''**/.git/HEAD'',
               workspaceDir s] (workspaceDir s) = Inr gitPaths"
    and "filter isNestedGitHead gitPaths = []"
  shows "initShadowGit e onInit s w =
           openShadowGit e onInit (log (LogNestedCheckFailed (errorMessage err)) s)
             (reportError (className s @ ''#hasNestedGitRepositories'') err w)
       \<and> observable (initShadowGit e onInit s w) =
           observable (initShadowGit (e\<lparr>executeRipgrep := scan\<rparr>) onInit s w)"
proof -
  let ?e' = "e\<lparr>executeRipgrep := scan\<rparr>"
  have a: "initShadowGit e onInit s w =
           openShadowGit e onInit (log (LogNestedCheckFailed (errorMessage err)) s)
             (reportError (className s @ ''#hasNestedGitRepositories'') err w)"
    by (rule initShadowGit_scan_throws [OF assms(1,2)])
  have "initShadowGit ?e' onInit s w = openShadowGit ?e' onInit s w"
    by (rule initShadowGit_nothing_nested [OF assms(1) _ assms(4)]) (simp add: assms(3))
  then have b: "initShadowGit ?e' onInit s w = openShadowGit e onInit s w"
    by simp
  have "observable (openShadowGit e onInit (log (LogNestedCheckFailed (errorMessage err)) s)
             (reportError (className s @ ''#hasNestedGitRepositories'') err w))
        = observable (openShadowGit e onInit s w)"
    by (rule openShadowGit_erased) simp_all
  with a b show ?thesis by simp
qed

theorem initShadowGit_scan_failure_witness:
  "git freshService = None
   \<and> executeRipgrep scanFailsEnv [''--files'', ''--hidden'', ''--follow'', ''-g'', ''**/.git/HEAD'',
        workspaceDir freshService] (workspaceDir freshService) = Inl (ErrorObj ''spawn rg ENOENT'')
   \<and> filter isNestedGitHead [] = []
   \<and> observable (initShadowGit scanFailsEnv None freshService exampleWorld) =
       observable (initShadowGit (scanFailsEnv\<lparr>executeRipgrep := (\<lambda>args ws. Inr [])\<rparr>)
                     None freshService exampleWorld)
   \<and> resultOf (initShadowGit scanFailsEnv None freshService exampleWorld) = Inr (True, 30)
   \<and> isInitialized (serviceAfter (initShadowGit scanFailsEnv None freshService exampleWorld))"
proof -
  have h1: "git freshService = None"
    by (simp add: example_defs)
  have h2: "executeRipgrep scanFailsEnv [''--files'', ''--hidden'', ''--follow'', ''-g'',
        ''**/.git/HEAD'', workspaceDir freshService] (workspaceDir freshService)
          = Inl (ErrorObj ''spawn rg ENOENT'')"
    by (simp add: scanFailsEnv_def example_defs)
  have h3: "(\<lambda>args ws. Inr []) [''--files'', ''--hidden'', ''--follow'', ''-g'',
        ''**/.git/HEAD'', workspaceDir freshService] (workspaceDir freshService)
          = (Inr [] :: thrown + fileResult list)"
    by simp
  have h4: "filter isNestedGitHead [] = []"
    by simp
  have run: "resultOf (openShadowGit scanFailsEnv None
                 (log (LogNestedCheckFailed (errorMessage (ErrorObj ''spawn rg ENOENT''))) freshService)
                 (reportError (className freshService @ ''#hasNestedGitRepositories'')
                    (ErrorObj ''spawn rg ENOENT'') exampleWorld)) = Inr (True, 30)
     \<and> git (serviceAfter (openShadowGit scanFailsEnv None
                 (log (LogNestedCheckFailed (errorMessage (ErrorObj ''spawn rg ENOENT''))) freshService)
                 (reportError (className freshService @ ''#hasNestedGitRepositories'')
                    (ErrorObj ''spawn rg ENOENT'') exampleWorld))) \<noteq> None"
    by (simp add: openShadowGit_def createShadowGit_def writeExcludeFile_def stageAll_def
        scanFailsEnv_def example_defs Let_def)
  note scan_failure = initShadowGit_scan_failure [OF h1 h2 h3 h4, of None exampleWorld]
  from scan_failure have eq: "initShadowGit scanFailsEnv None freshService exampleWorld =
      openShadowGit scanFailsEnv None
        (log (LogNestedCheckFailed (errorMessage (ErrorObj ''spawn rg ENOENT''))) freshService)
        (reportError (className freshService @ ''#hasNestedGitRepositories'')
           (ErrorObj ''spawn rg ENOENT'') exampleWorld)"
    by (rule conjunct1)
  from scan_failure have obs: "observable (initShadowGit scanFailsEnv None freshService exampleWorld) =
      observable (initShadowGit (scanFailsEnv\<lparr>executeRipgrep := (\<lambda>args ws. Inr [])\<rparr>)
                    None freshService exampleWorld)"
    by (rule conjunct2)
  from run have "resultOf (initShadowGit scanFailsEnv None freshService exampleWorld) = Inr (True, 30)
     \<and> isInitialized (serviceAfter (initShadowGit scanFailsEnv None freshService exampleWorld))"
    unfolding eq isInitialized_def .
  with h1 h2 h4 obs show ?thesis
    by blast
qed

subsection \<open>getDiff\<close>

lemma truthy_None [simp]: "truthy None = False"
  by (simp add: truthy_def)

lemma contentOrEmpty_failure: "contentOrEmpty (Inl err) = []"
  by (simp add: contentOrEmpty_def)

lemma diffFile_record:
  "fst (diffFile e cls from to cwdPath relPath w) =
     \<lparr>relative = relPath,
      absolute = path_join e [cwdPath, relPath],
      before = contentOrEmpty (git_show e [from @ '':'' @ relPath]),
      after = (case to of
                 Some t \<Rightarrow> contentOrEmpty (git_show e [t @ '':'' @ relPath])
               | None \<Rightarrow> contentOrEmpty (fs_readFile e (path_join e [cwdPath, relPath])))\<rparr>"
  by (simp add: diffFile_def contentOrEmpty_def Let_def case_prod_beta
      split: sum.splits option.splits)

lemma diffFiles_result:
  "fst (diffFiles e cls from to cwdPath files result w) =
     result @ map (\<lambda>relPath. fst (diffFile e cls from to cwdPath relPath w)) files"
proof (induction files arbitrary: result w)
  case Nil
  then show ?case by simp
next
  case (Cons relPath files)
  have indep: "\<And>w1 w2 r. fst (diffFile e cls from to cwdPath r w1) =
      fst (diffFile e cls from to cwdPath r w2)"
    by (simp add: diffFile_record)
  show ?case
    using Cons.IH [of "result @ [fst (diffFile e cls from to cwdPath relPath w)]"
        "snd (diffFile e cls from to cwdPath relPath w)"]
      indep [of _ "snd (diffFile e cls from to cwdPath relPath w)" w]
    by (simp add: case_prod_beta)
qed

lemma getDiff_result:
  assumes "git s = Some g"
    and "resolveFrom e from = Inr from'"
    and "changedFiles e from' to = Inr files"
  shows "\<exists>cwdPath. resultOf (getDiff e from to s w) =
           Inr (map (\<lambda>relPath.
                  \<lparr>relative = relPath,
                   absolute = path_join e [cwdPath, relPath],
                   before = contentOrEmpty (git_show e [from' @ '':'' @ relPath]),
                   after = (case (if truthy to then to else None) of
                              Some t \<Rightarrow> contentOrEmpty (git_show e [t @ '':'' @ relPath])
                            | None \<Rightarrow> contentOrEmpty
                                        (fs_readFile e (path_join e [cwdPath, relPath])))\<rparr>)
                files)"
proof -
  obtain s1 w1 where T: "stageAll e s w = (s1, w1)"
    by (cases "stageAll e s w")
  define to' where "to' = (if truthy to then to else None)"
  define s2 where "s2 = log (LogDiffing (case to' of Some t \<Rightarrow> from' @ ''..'' @ t
                                        | None \<Rightarrow> from' @ ''..HEAD'')) s1"
  obtain worktree s3 w3 where G: "getShadowGitConfigWorktree e s2 w1 = (worktree, s3, w3)"
    by (cases "getShadowGitConfigWorktree e s2 w1")
  define cwdPath where "cwdPath = (case (if truthy worktree then worktree else None) of
                                     Some d \<Rightarrow> d | None \<Rightarrow> workspaceDir s3)"
  have "resultOf (getDiff e from to s w) =
          Inr (fst (diffFiles e (className s3) from' to' cwdPath files [] w3))"
    using assms T G
    by (auto simp add: getDiff_def case_prod_beta Let_def to'_def [symmetric]
        s2_def [symmetric] cwdPath_def split: option.splits)
  then show ?thesis
    unfolding diffFiles_result diffFile_record append_Nil to'_def by (rule exI [of _ cwdPath])
qed

text \<open>
  C9. When \<^verbatim>\<open>getDiff\<close> has its list of changed files, it returns one record per file, in
  order, whatever the reads do: a side whose read fails (the blob at \<^verbatim>\<open>from\<close>, the blob
  at \<^verbatim>\<open>to\<close>, or the live file when \<^verbatim>\<open>to\<close> is omitted) is the empty string in that
  file's record, and the other records are what their own reads yield.
\<close>

theorem getDiff_read_failures:
  assumes "git s = Some g"
    and "resolveFrom e from = Inr from'"
    and "changedFiles e from' to = Inr files"
  shows "\<exists>ds. resultOf (getDiff e from to s w) = Inr ds
           \<and> map relative ds = files
           \<and> (\<forall>i < length files.
                 before (ds ! i) = contentOrEmpty (git_show e [from' @ '':'' @ files ! i])
               \<and> after (ds ! i) =
                   (case (if truthy to then to else None) of
                      Some t \<Rightarrow> contentOrEmpty (git_show e [t @ '':'' @ files ! i])
                    | None \<Rightarrow> contentOrEmpty (fs_readFile e (absolute (ds ! i)))))"
proof -
  from getDiff_result [OF assms, of w] obtain cwdPath where
    r: "resultOf (getDiff e from to s w) =
           Inr (map (\<lambda>relPath.
                  \<lparr>relative = relPath,
                   absolute = path_join e [cwdPath, relPath],
                   before = contentOrEmpty (git_show e [from' @ '':'' @ relPath]),
                   after = (case (if truthy to then to else None) of
                              Some t \<Rightarrow> contentOrEmpty (git_show e [t @ '':'' @ relPath])
                            | None \<Rightarrow> contentOrEmpty
                                        (fs_readFile e (path_join e [cwdPath, relPath])))\<rparr>)
                files)"
    by blast
  show ?thesis
    unfolding r by (intro exI conjI, rule refl) (auto simp: comp_def split: option.splits)
qed

lemma trim_example:
  "trim ([CHR 0xC2, CHR 0xA0] @ ''b0'' @ [CHR 0xE2, CHR 0x80, CHR 0xA8, CHR 0x0A]) = ''b0''"
  by (simp add: trim_def isWhiteSpace1_def isWhiteSpace2_def isWhiteSpace3_def)

lemma getDiff_example:
  "resultOf (getDiff readsFailEnv None None exampleService exampleWorld) =
     Inr [\<lparr>relative = ''a.txt'', absolute = ''/work/proj/a.txt'', before = [], after = []\<rparr>,
          \<lparr>relative = ''b.txt'', absolute = ''/work/proj/b.txt'',
            before = ''old b'', after = ''new b''\<rparr>]"
  by (simp add: getDiff_def resolveFrom_def changedFiles_def truthy_def trim_def isWhiteSpace1_def isWhiteSpace2_def isWhiteSpace3_def
      stageAll_def getShadowGitConfigWorktree_def diffFile_def readsFailEnv_def example_defs
      Let_def)

theorem getDiff_read_failures_witness:
  "git exampleService = Some ''/storage/tasks/t1/checkpoints''
   \<and> resolveFrom readsFailEnv None = Inr ''b0''
   \<and> changedFiles readsFailEnv ''b0'' None = Inr [''a.txt'', ''b.txt'']
   \<and> git_show readsFailEnv [''b0'' @ '':'' @ ''a.txt''] = Inl (ErrorObj ''fatal: path does not exist'')
   \<and> fs_readFile readsFailEnv ''/work/proj/a.txt'' = Inl (ErrorObj ''ENOENT'')
   \<and> (\<exists>ds. resultOf (getDiff readsFailEnv None None exampleService exampleWorld) = Inr ds
         \<and> map relative ds = [''a.txt'', ''b.txt'']
         \<and> (\<forall>i < length [''a.txt'', ''b.txt''].
               before (ds ! i) =
                 contentOrEmpty (git_show readsFailEnv [''b0'' @ '':'' @ [''a.txt'', ''b.txt''] ! i])
             \<and> after (ds ! i) =
                 (case (if truthy None then None else None) of
                    Some t \<Rightarrow> contentOrEmpty
                               (git_show readsFailEnv [t @ '':'' @ [''a.txt'', ''b.txt''] ! i])
                  | None \<Rightarrow> contentOrEmpty (fs_readFile readsFailEnv (absolute (ds ! i))))))
   \<and> resultOf (getDiff readsFailEnv None None exampleService exampleWorld) =
       Inr [\<lparr>relative = ''a.txt'', absolute = ''/work/proj/a.txt'', before = [], after = []\<rparr>,
            \<lparr>relative = ''b.txt'', absolute = ''/work/proj/b.txt'',
              before = ''old b'', after = ''new b''\<rparr>]"
proof -
  have h1: "git exampleService = Some ''/storage/tasks/t1/checkpoints''"
    by (simp add: example_defs)
  have h2: "resolveFrom readsFailEnv None = Inr ''b0''"
    by (simp add: resolveFrom_def truthy_def trim_def isWhiteSpace1_def isWhiteSpace2_def isWhiteSpace3_def readsFailEnv_def
        example_defs)
  have h3: "changedFiles readsFailEnv ''b0'' None = Inr [''a.txt'', ''b.txt'']"
    by (simp add: changedFiles_def truthy_def readsFailEnv_def example_defs)
  have f1: "git_show readsFailEnv [''b0'' @ '':'' @ ''a.txt'']
              = Inl (ErrorObj ''fatal: path does not exist'')"
    by (simp add: readsFailEnv_def example_defs)
  have f2: "fs_readFile readsFailEnv ''/work/proj/a.txt'' = Inl (ErrorObj ''ENOENT'')"
    by (simp add: readsFailEnv_def example_defs)
  from getDiff_read_failures [OF h1 h2 h3, of exampleWorld] h1 h2 h3 f1 f2 getDiff_example
  show ?thesis by blast
qed

subsection \<open>The hashes of an initialized instance\<close>

text \<open>
  A constructed instance has an empty sequence and no listener; a successful
  \<^verbatim>\<open>initShadowGit\<close> sets
  the base hash; \<^verbatim>\<open>saveCheckpoint\<close> and \<^verbatim>\<open>restoreCheckpoint\<close> keep the base hash set and
  every entry of the sequence defined, and never drop the git handle.
\<close>

lemma getShadowGitConfigWorktree_fields [simp]:
  "checkpoints (serviceAfter (getShadowGitConfigWorktree e s w)) = checkpoints s"
  "baseHash (serviceAfter (getShadowGitConfigWorktree e s w)) = baseHash s"
  "git (serviceAfter (getShadowGitConfigWorktree e s w)) = git s"
  "emitted (serviceAfter (getShadowGitConfigWorktree e s w)) = emitted s"
  by (simp_all add: getShadowGitConfigWorktree_def Let_def split: sum.splits)

lemma getNestedGitRepository_fields [simp]:
  "checkpoints (serviceAfter (getNestedGitRepository e s w)) = checkpoints s"
  "baseHash (serviceAfter (getNestedGitRepository e s w)) = baseHash s"
  "git (serviceAfter (getNestedGitRepository e s w)) = git s"
  "emitted (serviceAfter (getNestedGitRepository e s w)) = emitted s"
  by (simp_all add: getNestedGitRepository_def Let_def split: sum.splits list.splits)

lemma reopenShadowGit_hashes:
  assumes "resultOf (reopenShadowGit e s w) = Inr c"
  shows "baseHash (serviceAfter (reopenShadowGit e s w)) \<noteq> None
       \<and> checkpoints (serviceAfter (reopenShadowGit e s w)) = checkpoints s"
proof -
  obtain wt s2 w2 where G: "getShadowGitConfigWorktree e (log (LogRepoExists (dotGitDir s)) s) w
                              = (wt, s2, w2)"
    by (cases "getShadowGitConfigWorktree e (log (LogRepoExists (dotGitDir s)) s) w")
  have "checkpoints (serviceAfter (getShadowGitConfigWorktree e
          (log (LogRepoExists (dotGitDir s)) s) w)) = checkpoints s"
    by simp
  with G have c: "checkpoints s2 = checkpoints s"
    by simp
  from assms G c show ?thesis
    by (auto simp: reopenShadowGit_def Let_def split: sum.splits prod.splits if_splits)
qed

lemma createShadowGit_hashes:
  assumes "resultOf (createShadowGit e s w) = Inr c"
  shows "baseHash (serviceAfter (createShadowGit e s w)) \<noteq> None
       \<and> checkpoints (serviceAfter (createShadowGit e s w)) = checkpoints s"
  using assms
  by (auto simp: createShadowGit_def Let_def case_prod_beta
      split: sum.splits prod.splits simp del: addConfigs.simps)

lemma openShadowGit_hashes:
  assumes "resultOf (openShadowGit e onInit s w) = Inr r"
  shows "baseHash (serviceAfter (openShadowGit e onInit s w)) \<noteq> None
       \<and> checkpoints (serviceAfter (openShadowGit e onInit s w)) = checkpoints s"
proof (cases "fileExistsAtPath e (dotGitDir s)")
  case True
  with assms show ?thesis
    by (auto simp: openShadowGit_def Let_def case_prod_beta split: sum.splits option.splits
        dest: reopenShadowGit_hashes)
next
  case False
  with assms show ?thesis
    by (auto simp: openShadowGit_def Let_def case_prod_beta split: sum.splits option.splits
        dest: createShadowGit_hashes)
qed

lemma initShadowGit_hashesDefined:
  assumes "resultOf (initShadowGit e onInit s w) = Inr r"
    and "None \<notin> set (checkpoints s)"
  shows "hashesDefined (serviceAfter (initShadowGit e onInit s w))"
proof -
  obtain n s1 w1 where N: "getNestedGitRepository e s w = (n, s1, w1)"
    by (cases "getNestedGitRepository e s w")
  have "checkpoints (serviceAfter (getNestedGitRepository e s w)) = checkpoints s"
    by simp
  with N have c: "checkpoints s1 = checkpoints s"
    by simp
  from assms N have "initShadowGit e onInit s w = openShadowGit e onInit s1 w1"
    by (auto simp: initShadowGit_def Let_def split: if_splits option.splits)
  with assms openShadowGit_hashes [of e onInit s1 w1 r] c show ?thesis
    by (simp add: hashesDefined_def)
qed

lemma set_slice: "set (slice xs a b) \<subseteq> set xs"
  unfolding slice_def Let_def by (meson set_take_subset set_drop_subset subset_trans)

lemma saveCheckpoint_hashesDefined:
  assumes "hashesDefined s"
  shows "hashesDefined (serviceAfter (saveCheckpoint e message opts s w))"
proof -
  from assms have "checkpoints s \<noteq> [] \<Longrightarrow> last (checkpoints s) \<noteq> None"
    unfolding hashesDefined_def using last_in_set by metis
  with assms show ?thesis
    by (auto simp: hashesDefined_def saveCheckpoint_def Let_def
        case_prod_beta fromHash_eq split: option.splits sum.splits)
qed

lemma restoreCheckpoint_hashesDefined:
  assumes "hashesDefined s"
  shows "hashesDefined (serviceAfter (restoreCheckpoint e h s w))"
  using assms set_slice [of "checkpoints s" 0 "indexOf (checkpoints s) (Some h) + 1"]
  by (auto simp: hashesDefined_def restoreCheckpoint_def restoreCheckpoint_catch_def Let_def
      case_prod_beta
      split: option.splits sum.splits)

lemma constructor_fresh:
  "fst (constructor e cls tid cpDir wsDir w) = Inr s \<Longrightarrow>
     checkpoints s = [] \<and> git s = None \<and> listeners s = []"
  by (auto simp: constructor_def Let_def split: if_splits)

lemma saveCheckpoint_git [simp]:
  "git (serviceAfter (saveCheckpoint e message opts s w)) = git s"
  by (simp add: saveCheckpoint_def Let_def case_prod_beta
      split: option.splits sum.splits)

lemma restoreCheckpoint_git [simp]:
  "git (serviceAfter (restoreCheckpoint e h s w)) = git s"
  by (simp add: restoreCheckpoint_def restoreCheckpoint_catch_def Let_def case_prod_beta
      split: option.splits sum.splits)

end
